theory Spec2Isabelle
  imports Main "HOL-Library.Word" "HOL-Library.List_Lexorder" "HOL-Library.Monad_Syntax"
begin

section \<open>JavaScript strings and the platform's string functions\<close>

text \<open>
  A JavaScript string is a sequence of 16-bit code units; \<open>js\<close> writes an ASCII literal
  of the source as such a sequence.  Byte arrays (\<open>Uint8Array\<close>) are lists of 8-bit words.
  A function of the platform that throws returns \<open>None\<close>.
\<close>

type_synonym jsstring = "16 word list"
type_synonym bytes = "8 word list"

definition js :: "string \<Rightarrow> jsstring" where
  "js s = map of_char s"

text \<open>\<open>Array.prototype.join\<close> on an array of strings.\<close>

fun join :: "jsstring \<Rightarrow> jsstring list \<Rightarrow> jsstring" where
  "join sep [] = []"
| "join sep [x] = x"
| "join sep (x # y # ys) = x @ sep @ join sep (y # ys)"

text \<open>
  \<open>Number.prototype.toString(radix)\<close> on a non-negative integer, for the two radices the
  source uses: lower-case digits, no padding.
\<close>

definition digit_chars :: jsstring where
  "digit_chars = js ''0123456789abcdef''"

function Number_toString :: "nat \<Rightarrow> nat \<Rightarrow> jsstring" where
  "Number_toString radix n =
     (if radix < 2 \<or> n < radix then [digit_chars ! n]
      else Number_toString radix (n div radix) @ [digit_chars ! (n mod radix)])"
  by pat_completeness auto
termination
  by (relation "measure (\<lambda>(radix, n). n)") auto

declare Number_toString.simps [simp del]

text \<open>
  \<open>String.prototype.toUpperCase\<close>, on the ASCII range; the source applies it to
  hexadecimal digits only.
\<close>

definition toUpperCase :: "jsstring \<Rightarrow> jsstring" where
  "toUpperCase s = map (\<lambda>c. if 0x61 \<le> c \<and> c \<le> 0x7A then c - 0x20 else c) s"

text \<open>\<open>String.prototype.padStart(n, "0")\<close>.\<close>

definition padStart0 :: "nat \<Rightarrow> jsstring \<Rightarrow> jsstring" where
  "padStart0 n s = replicate (n - length s) 0x30 @ s"

subsection \<open>UTF-8 and surrogate pairs\<close>

definition isLeadSurrogate :: "16 word \<Rightarrow> bool" where
  "isLeadSurrogate c = (0xD800 \<le> c \<and> c \<le> 0xDBFF)"

definition isTrailSurrogate :: "16 word \<Rightarrow> bool" where
  "isTrailSurrogate c = (0xDC00 \<le> c \<and> c \<le> 0xDFFF)"

definition pairToCodePoint :: "16 word \<Rightarrow> 16 word \<Rightarrow> nat" where
  "pairToCodePoint lead trail = (unat lead - 0xD800) * 0x400 + (unat trail - 0xDC00) + 0x10000"

definition utf8 :: "nat \<Rightarrow> bytes" where
  "utf8 cp =
     (if cp < 0x80 then [of_nat cp]
      else if cp < 0x800 then [of_nat (0xC0 + cp div 64), of_nat (0x80 + cp mod 64)]
      else if cp < 0x10000 then
        [of_nat (0xE0 + cp div 4096), of_nat (0x80 + cp div 64 mod 64), of_nat (0x80 + cp mod 64)]
      else
        [of_nat (0xF0 + cp div 262144), of_nat (0x80 + cp div 4096 mod 64),
         of_nat (0x80 + cp div 64 mod 64), of_nat (0x80 + cp mod 64)])"

text \<open>
  \<open>new TextEncoder().encode(s)\<close>: the UTF-8 bytes of the string, an unpaired surrogate
  replaced by U+FFFD.
\<close>

fun TextEncoder_encode :: "jsstring \<Rightarrow> bytes" where
  "TextEncoder_encode [] = []"
| "TextEncoder_encode (c # cs) =
     (if isTrailSurrogate c then utf8 0xFFFD @ TextEncoder_encode cs
      else if isLeadSurrogate c then
        (case cs of
           [] \<Rightarrow> utf8 0xFFFD
         | d # ds \<Rightarrow>
             if isTrailSurrogate d then utf8 (pairToCodePoint c d) @ TextEncoder_encode ds
             else utf8 0xFFFD @ TextEncoder_encode cs)
      else utf8 (unat c) @ TextEncoder_encode cs)"

subsection \<open>encodeURIComponent\<close>

text \<open>
  The characters \<open>encodeURIComponent\<close> leaves as they are: letters, digits and the marks
  \<open>- _ . ! ~ * ' ( )\<close>.
\<close>

definition uriUnescaped :: "16 word \<Rightarrow> bool" where
  "uriUnescaped c =
     ((0x41 \<le> c \<and> c \<le> 0x5A) \<or> (0x61 \<le> c \<and> c \<le> 0x7A) \<or> (0x30 \<le> c \<and> c \<le> 0x39)
      \<or> c \<in> set (js ''-_.!~*'()''))"

definition hex_upper :: jsstring where
  "hex_upper = js ''0123456789ABCDEF''"

definition percentOctet :: "8 word \<Rightarrow> jsstring" where
  "percentOctet b = [0x25, hex_upper ! (unat b div 16), hex_upper ! (unat b mod 16)]"

definition percentOctets :: "bytes \<Rightarrow> jsstring" where
  "percentOctets bs = concat (map percentOctet bs)"

text \<open>
  Every code unit outside the unescaped set is read as a code point (two code units for a
  surrogate pair), encoded in UTF-8, and each byte written as \<open>%XX\<close>.  An unpaired
  surrogate throws \<open>URIError\<close>: the result is \<open>None\<close>.
\<close>

fun encodeURIComponent :: "jsstring \<Rightarrow> jsstring option" where
  "encodeURIComponent [] = Some []"
| "encodeURIComponent (c # cs) =
     (if uriUnescaped c then map_option ((#) c) (encodeURIComponent cs)
      else if isTrailSurrogate c then None
      else if isLeadSurrogate c then
        (case cs of
           [] \<Rightarrow> None
         | d # ds \<Rightarrow>
             if isTrailSurrogate d
             then map_option ((@) (percentOctets (utf8 (pairToCodePoint c d))))
                    (encodeURIComponent ds)
             else None)
      else map_option ((@) (percentOctets (utf8 (unat c)))) (encodeURIComponent cs))"

section \<open>The signer (token-refresh module)\<close>

definition EXCHANGE_URL :: string where
  "EXCHANGE_URL = ''https://connectapi.garmin.com/oauth-service/oauth/exchange/user/2.0''"

definition CONSUMER_URL :: string where
  "CONSUMER_URL = ''https://thegarth.s3.amazonaws.com/oauth_consumer.json''"

definition CONSUMER_KV_KEY :: string where
  "CONSUMER_KV_KEY = ''oauth_consumer''"

definition CONSUMER_TTL :: nat where
  "CONSUMER_TTL = 86400"

text \<open>
  \<open>percentEncode\<close>: \<open>encodeURIComponent\<close>, then every \<open>!\<close>, \<open>'\<close>, \<open>(\<close>, \<open>)\<close>, \<open>*\<close> of
  the result replaced by \<open>%\<close> and the upper-cased hexadecimal of its character code.
\<close>

definition oauth_special :: "16 word \<Rightarrow> bool" where
  "oauth_special c = (c \<in> set (js ''!'()*''))"

definition replace_special :: "jsstring \<Rightarrow> jsstring" where
  "replace_special s =
     concat (map (\<lambda>c. if oauth_special c
                       then js ''%'' @ toUpperCase (Number_toString 16 (unat c))
                       else [c]) s)"

definition percentEncode :: "jsstring \<Rightarrow> jsstring option" where
  "percentEncode str = map_option replace_special (encodeURIComponent str)"

subsection \<open>Token types\<close>

text \<open>
  The interfaces of the types module.  A numeric field of \<open>OAuth2Token\<close> is optional
  in the model (\<open>None\<close> is JavaScript's \<open>undefined\<close>) because \<open>refreshOAuth2Token\<close>
  tests whether the exchange response carries it.  Numbers are integers (JSON numbers
  below \<open>2^53\<close>, where the platform's arithmetic is exact).
\<close>

record OAuth1Token =
  oauth_token :: jsstring
  oauth_token_secret :: jsstring
  mfa_token :: "jsstring option"
  mfa_expiration_timestamp :: "jsstring option"
  domain :: jsstring

record OAuth2Token =
  scope :: jsstring
  jti :: jsstring
  token_type :: jsstring
  access_token :: jsstring
  refresh_token :: jsstring
  expires_in :: "int option"
  expires_at :: "int option"
  refresh_token_expires_in :: "int option"
  refresh_token_expires_at :: "int option"

record OAuthConsumer =
  consumer_key :: jsstring
  consumer_secret :: jsstring

text \<open>
  JavaScript's truthiness of a number that may be missing, and its comparisons with a
  number: \<open>undefined\<close> and \<open>0\<close> are falsy, and every comparison with \<open>undefined\<close> is
  false.
\<close>

fun truthy :: "int option \<Rightarrow> bool" where
  "truthy None = False"
| "truthy (Some n) = (n \<noteq> 0)"

fun js_gt :: "int option \<Rightarrow> int \<Rightarrow> bool" where
  "js_gt None m = False"
| "js_gt (Some n) m = (n > m)"

fun js_le :: "int option \<Rightarrow> int \<Rightarrow> bool" where
  "js_le None m = False"
| "js_le (Some n) m = (n \<le> m)"

fun js_add :: "int \<Rightarrow> int option \<Rightarrow> int option" where
  "js_add m None = None"
| "js_add m (Some n) = Some (m + n)"

subsection \<open>Nonce, HMAC-SHA1 and base 64\<close>

text \<open>
  \<open>generateNonce\<close>, given the 16 bytes that \<open>crypto.getRandomValues\<close> wrote: each byte in
  hexadecimal, padded to two digits, all joined.
\<close>

definition generateNonce :: "bytes \<Rightarrow> jsstring" where
  "generateNonce array = concat (map (\<lambda>b. padStart0 2 (Number_toString 16 (unat b))) array)"

definition base64_chars :: jsstring where
  "base64_chars = js ''ABCDEFGHIJKLMNOPQRSTUVWXYZabcdefghijklmnopqrstuvwxyz0123456789+/''"

text \<open>
  \<open>btoa(String.fromCharCode(...bytes))\<close>: the binary string has one code unit per byte,
  none above 255, so \<open>btoa\<close> does not throw and yields the base-64 text of the bytes.
\<close>

fun btoa_fromCharCode :: "bytes \<Rightarrow> jsstring" where
  "btoa_fromCharCode [] = []"
| "btoa_fromCharCode [a] =
     [base64_chars ! (unat a div 4), base64_chars ! (unat a mod 4 * 16), 0x3D, 0x3D]"
| "btoa_fromCharCode [a, b] =
     [base64_chars ! (unat a div 4), base64_chars ! (unat a mod 4 * 16 + unat b div 16),
      base64_chars ! (unat b mod 16 * 4), 0x3D]"
| "btoa_fromCharCode (a # b # c # rest) =
     [base64_chars ! (unat a div 4), base64_chars ! (unat a mod 4 * 16 + unat b div 16),
      base64_chars ! (unat b mod 16 * 4 + unat c div 64), base64_chars ! (unat c mod 64)]
     @ btoa_fromCharCode rest"

text \<open>
  \<open>hmacSha1\<close>.  The HMAC-SHA1 of Web Crypto (\<open>importKey\<close> and \<open>sign\<close>) is a function of
  the platform, the parameter \<open>hmac\<close>: key bytes and data bytes to the 20 bytes of the digest.
\<close>

definition hmacSha1 :: "(bytes \<Rightarrow> bytes \<Rightarrow> bytes) \<Rightarrow> jsstring \<Rightarrow> jsstring \<Rightarrow> jsstring" where
  "hmacSha1 hmac key data =
     btoa_fromCharCode (hmac (TextEncoder_encode key) (TextEncoder_encode data))"

subsection \<open>Objects with string values\<close>

text \<open>
  A \<open>Record<string, string>\<close> keeps its keys in insertion order: an association list.
  Reading a missing key gives \<open>undefined\<close>, which \<open>encodeURIComponent\<close> turns into the
  text \<open>undefined\<close>.
\<close>

type_synonym jsobject = "(jsstring \<times> jsstring) list"

definition Object_keys :: "jsobject \<Rightarrow> jsstring list" where
  "Object_keys obj = map fst obj"

definition obj_get :: "jsobject \<Rightarrow> jsstring \<Rightarrow> jsstring" where
  "obj_get obj k = (case map_of obj k of Some v \<Rightarrow> v | None \<Rightarrow> js ''undefined'')"

definition obj_set :: "jsobject \<Rightarrow> jsstring \<Rightarrow> jsstring \<Rightarrow> jsobject" where
  "obj_set obj k v =
     (if k \<in> set (Object_keys obj)
      then map (\<lambda>(k', v'). if k' = k then (k', v) else (k', v')) obj
      else obj @ [(k, v)])"

definition dquote :: jsstring where
  "dquote = [0x22]"

subsection \<open>buildOAuth1Header\<close>

text \<open>
  The body of \<open>buildOAuth1Header\<close> after its two reads of the environment:
  \<open>now_ms\<close> is the value of \<open>Date.now()\<close> and \<open>array\<close> the random bytes of the nonce.
  \<open>Array.prototype.sort\<close> without a comparator orders strings by their code units.
  \<open>None\<close>: \<open>percentEncode\<close> threw.
\<close>

definition signHeader ::
  "(bytes \<Rightarrow> bytes \<Rightarrow> bytes) \<Rightarrow> OAuthConsumer \<Rightarrow> OAuth1Token \<Rightarrow> nat \<Rightarrow> bytes \<Rightarrow> jsstring option"
where
  "signHeader hmac consumer oauth1 now_ms array =
     (let timestamp = Number_toString 10 (now_ms div 1000);
          nonce = generateNonce array;
          params =
            [(js ''oauth_consumer_key'', consumer_key consumer),
             (js ''oauth_nonce'', nonce),
             (js ''oauth_signature_method'', js ''HMAC-SHA1''),
             (js ''oauth_timestamp'', timestamp),
             (js ''oauth_token'', oauth_token oauth1),
             (js ''oauth_version'', js ''1.0'')]
      in do {
        parts \<leftarrow> those (map (\<lambda>k. do {
                    ek \<leftarrow> percentEncode k;
                    ev \<leftarrow> percentEncode (obj_get params k);
                    Some (ek @ js ''='' @ ev) })
                  (sort (Object_keys params)));
        let paramString = join (js ''&'') parts;
        eu \<leftarrow> percentEncode (js EXCHANGE_URL);
        ep \<leftarrow> percentEncode paramString;
        let baseString = join (js ''&'') [js ''POST'', eu, ep];
        ecs \<leftarrow> percentEncode (consumer_secret consumer);
        ets \<leftarrow> percentEncode (oauth_token_secret oauth1);
        let signingKey = ecs @ js ''&'' @ ets;
        let signature = hmacSha1 hmac signingKey baseString;
        let params' = obj_set params (js ''oauth_signature'') signature;
        headerParts \<leftarrow> those (map (\<lambda>k. do {
                    ek \<leftarrow> percentEncode k;
                    ev \<leftarrow> percentEncode (obj_get params' k);
                    Some (ek @ js ''='' @ dquote @ ev @ dquote) })
                  (sort (Object_keys params')));
        Some (js ''OAuth '' @ join (js '', '') headerParts)
      })"

subsection \<open>The header as the specification words it\<close>

text \<open>
  The reference algorithm, written from the specification's steps 3 to 9 and not from the
  code: encode every name and value, sort by encoded key, join; base string; signing key;
  signature; header of all seven parameters sorted by key.
\<close>

definition spec_encode_pairs :: "jsobject \<Rightarrow> jsobject option" where
  "spec_encode_pairs ps =
     those (map (\<lambda>(k, v). do { ek \<leftarrow> percentEncode k; ev \<leftarrow> percentEncode v; Some (ek, ev) }) ps)"

definition spec_parameter_string :: "jsobject \<Rightarrow> jsstring option" where
  "spec_parameter_string ps = do {
     encoded \<leftarrow> spec_encode_pairs ps;
     Some (join (js ''&'') (map (\<lambda>(k, v). k @ js ''='' @ v) (sort_key fst encoded)))
   }"

definition spec_base_string :: "jsstring \<Rightarrow> jsstring \<Rightarrow> jsstring \<Rightarrow> jsstring option" where
  "spec_base_string method target parameter_string = do {
     eu \<leftarrow> percentEncode target;
     ep \<leftarrow> percentEncode parameter_string;
     Some (method @ js ''&'' @ eu @ js ''&'' @ ep)
   }"

definition spec_signing_key :: "jsstring \<Rightarrow> jsstring \<Rightarrow> jsstring option" where
  "spec_signing_key consumer_sec token_sec = do {
     ecs \<leftarrow> percentEncode consumer_sec;
     ets \<leftarrow> percentEncode token_sec;
     Some (ecs @ js ''&'' @ ets)
   }"

definition spec_header ::
  "(bytes \<Rightarrow> bytes \<Rightarrow> bytes) \<Rightarrow> jsstring \<Rightarrow> jsstring \<Rightarrow> OAuthConsumer \<Rightarrow> OAuth1Token
     \<Rightarrow> jsstring \<Rightarrow> jsstring \<Rightarrow> jsstring option"
where
  "spec_header hmac method target consumer oauth1 timestamp nonce = do {
     let protocol =
       [(js ''oauth_consumer_key'', consumer_key consumer),
        (js ''oauth_nonce'', nonce),
        (js ''oauth_signature_method'', js ''HMAC-SHA1''),
        (js ''oauth_timestamp'', timestamp),
        (js ''oauth_token'', oauth_token oauth1),
        (js ''oauth_version'', js ''1.0'')];
     parameter_string \<leftarrow> spec_parameter_string protocol;
     base \<leftarrow> spec_base_string method target parameter_string;
     key \<leftarrow> spec_signing_key (consumer_secret consumer) (oauth_token_secret oauth1);
     let digest = hmac (TextEncoder_encode key) (TextEncoder_encode base);
     let oauth_signature = btoa_fromCharCode digest;
     values \<leftarrow> those (map (\<lambda>(k, v). do { ev \<leftarrow> percentEncode v; Some (k, ev) })
                        (protocol @ [(js ''oauth_signature'', oauth_signature)]));
     Some (js ''OAuth '' @
           join (js '', '') (map (\<lambda>(k, v). k @ js ''='' @ dquote @ v @ dquote) (sort_key fst values)))
   }"

section \<open>The environment of one invocation\<close>

text \<open>
  Everything outside the program in one record, with every effect explicit.

  \<^item> The KV namespace holds the three documents the program reads and writes, each under
    its fixed key and together with the \<open>expirationTtl\<close> of the \<open>put\<close> that stored it.
    \<open>JSON.stringify\<close> followed by \<open>JSON.parse\<close> gives back the same document, so the
    model stores the documents themselves, at the type the program casts them to.
  \<^item> \<open>clock\<close> gives the successive values of \<open>Date.now()\<close> in milliseconds, and
    \<open>entropy\<close> the bytes of the successive calls of \<open>crypto.getRandomValues\<close>.
  \<^item> \<open>server\<close> answers the \<open>n\<close>-th \<open>fetch\<close> of the invocation: a response, or a
    rejection (a transport failure).
  \<^item> \<open>trace\<close> records every KV read, KV write and \<open>fetch\<close>, oldest first.
  One invocation runs alone: nothing else writes to the namespace while it runs.
\<close>

datatype error =
    NoOAuth2Token
  | NoOAuth1Token
  | ConsumerFetchFailed nat
  | ExchangeFailed nat jsstring
  | GarminApiError nat jsstring
  | URIError
  | NetworkError
  | SyntaxError

text \<open>
  The constructors stand for the errors the source throws: \<open>NoOAuth2Token\<close> is
  ``No OAuth2 token in KV. Upload tokens first.'', \<open>NoOAuth1Token\<close> is ``No OAuth1 token in
  KV. Re-run auth.py and re-upload tokens.'', \<open>ConsumerFetchFailed status\<close> is ``Failed to
  fetch OAuth consumer keys: status'', \<open>ExchangeFailed status body\<close> is ``OAuth2 token
  exchange failed (status): body'', \<open>GarminApiError status body\<close> is ``Garmin API error
  (status): body''.  \<open>URIError\<close> is thrown by \<open>encodeURIComponent\<close>, \<open>NetworkError\<close> is
  a rejected \<open>fetch\<close>, \<open>SyntaxError\<close> a body that \<open>json()\<close> or \<open>JSON.parse\<close> rejects.
\<close>

datatype http_method = GET | POST | PUT

record request =
  http_method :: http_method
  url :: jsstring
  query :: jsobject
  authorization :: "jsstring option"
  content_type :: "jsstring option"
  user_agent :: "jsstring option"
  body :: "jsstring option"

text \<open>
  A response: its status, its body as text (\<open>resp.text()\<close>), and its body as parsed by
  \<open>resp.json()\<close> and read at the type the caller casts it to; \<open>None\<close> when the body is
  not JSON.  An unknown JSON value is kept as text.
\<close>

type_synonym json = jsstring

record response =
  status :: nat
  body_text :: jsstring
  json_consumer :: "OAuthConsumer option"
  json_token :: "OAuth2Token option"
  json_value :: "json option"

datatype fetch_result = Rejected | Response response

definition ok :: "response \<Rightarrow> bool" where
  "ok resp = (200 \<le> status resp \<and> status resp \<le> 299)"

datatype event =
    KVGet string
  | KVPut string "nat option"
  | Fetch request

record KVNamespace =
  kv_oauth1_token :: "(OAuth1Token \<times> nat option) option"
  kv_oauth2_token :: "(OAuth2Token \<times> nat option) option"
  kv_oauth_consumer :: "(OAuthConsumer \<times> nat option) option"

record world =
  GARMIN_KV :: KVNamespace
  clock :: "nat \<Rightarrow> nat"
  clock_reads :: nat
  entropy :: "nat \<Rightarrow> nat \<Rightarrow> 8 word"
  entropy_reads :: nat
  subtle_hmac_sha1 :: "bytes \<Rightarrow> bytes \<Rightarrow> bytes"
  server :: "nat \<Rightarrow> request \<Rightarrow> fetch_result"
  trace :: "event list"

definition Date_now :: "world \<Rightarrow> nat \<times> world" where
  "Date_now w = (clock w (clock_reads w), w\<lparr>clock_reads := clock_reads w + 1\<rparr>)"

definition getRandomValues :: "nat \<Rightarrow> world \<Rightarrow> bytes \<times> world" where
  "getRandomValues n w =
     (map (entropy w (entropy_reads w)) [0..<n], w\<lparr>entropy_reads := entropy_reads w + 1\<rparr>)"

fun is_Fetch :: "event \<Rightarrow> bool" where
  "is_Fetch (Fetch r) = True"
| "is_Fetch e = False"

definition fetch :: "request \<Rightarrow> world \<Rightarrow> fetch_result \<times> world" where
  "fetch r w =
     (server w (length (filter is_Fetch (trace w))) r, w\<lparr>trace := trace w @ [Fetch r]\<rparr>)"

definition kv_get_oauth1 :: "world \<Rightarrow> OAuth1Token option \<times> world" where
  "kv_get_oauth1 w =
     (map_option fst (kv_oauth1_token (GARMIN_KV w)),
      w\<lparr>trace := trace w @ [KVGet ''oauth1_token'']\<rparr>)"

definition kv_get_oauth2 :: "world \<Rightarrow> OAuth2Token option \<times> world" where
  "kv_get_oauth2 w =
     (map_option fst (kv_oauth2_token (GARMIN_KV w)),
      w\<lparr>trace := trace w @ [KVGet ''oauth2_token'']\<rparr>)"

definition kv_get_consumer :: "world \<Rightarrow> OAuthConsumer option \<times> world" where
  "kv_get_consumer w =
     (map_option fst (kv_oauth_consumer (GARMIN_KV w)),
      w\<lparr>trace := trace w @ [KVGet CONSUMER_KV_KEY]\<rparr>)"

definition kv_put_oauth2 :: "OAuth2Token \<Rightarrow> nat option \<Rightarrow> world \<Rightarrow> world" where
  "kv_put_oauth2 v ttl w =
     w\<lparr>GARMIN_KV := (GARMIN_KV w)\<lparr>kv_oauth2_token := Some (v, ttl)\<rparr>,
       trace := trace w @ [KVPut ''oauth2_token'' ttl]\<rparr>"

definition kv_put_consumer :: "OAuthConsumer \<Rightarrow> nat option \<Rightarrow> world \<Rightarrow> world" where
  "kv_put_consumer v ttl w =
     w\<lparr>GARMIN_KV := (GARMIN_KV w)\<lparr>kv_oauth_consumer := Some (v, ttl)\<rparr>,
       trace := trace w @ [KVPut CONSUMER_KV_KEY ttl]\<rparr>"

section \<open>The refresh (token-refresh module, continued)\<close>

text \<open>\<open>buildOAuth1Header\<close>: the timestamp from the clock, the nonce from the random source.\<close>

definition buildOAuth1Header ::
  "OAuthConsumer \<Rightarrow> OAuth1Token \<Rightarrow> world \<Rightarrow> jsstring option \<times> world" where
  "buildOAuth1Header consumer oauth1 w =
     (let (now_ms, w1) = Date_now w;
          (array, w2) = getRandomValues 16 w1
      in (signHeader (subtle_hmac_sha1 w) consumer oauth1 now_ms array, w2))"

definition consumer_request :: request where
  "consumer_request =
     \<lparr>http_method = GET, url = js CONSUMER_URL, query = [], authorization = None,
      content_type = None, user_agent = None, body = None\<rparr>"

definition getConsumer :: "world \<Rightarrow> (error + OAuthConsumer) \<times> world" where
  "getConsumer w =
     (let (cached, w1) = kv_get_consumer w in
      case cached of
        Some c \<Rightarrow> (Inr c, w1)
      | None \<Rightarrow>
          (let (res, w2) = fetch consumer_request w1 in
           case res of
             Rejected \<Rightarrow> (Inl NetworkError, w2)
           | Response resp \<Rightarrow>
               if \<not> ok resp then (Inl (ConsumerFetchFailed (status resp)), w2)
               else
                 (case json_consumer resp of
                    None \<Rightarrow> (Inl SyntaxError, w2)
                  | Some consumer \<Rightarrow>
                      (Inr consumer, kv_put_consumer consumer (Some CONSUMER_TTL) w2))))"

definition exchange_request :: "jsstring \<Rightarrow> request" where
  "exchange_request authHeader =
     \<lparr>http_method = POST, url = js EXCHANGE_URL, query = [],
      authorization = Some authHeader,
      content_type = Some (js ''application/x-www-form-urlencoded''),
      user_agent = Some (js ''com.garmin.android.apps.connectmobile''),
      body = None\<rparr>"

text \<open>
  The two assignments of \<open>refreshOAuth2Token\<close> that compute the absolute expiry
  timestamps ``if not provided'', \<open>now\<close> in seconds.
\<close>

definition absolute_expiry :: "int \<Rightarrow> OAuth2Token \<Rightarrow> OAuth2Token" where
  "absolute_expiry now data =
     (let data1 =
            (if \<not> truthy (expires_at data) \<and> truthy (expires_in data)
             then data\<lparr>expires_at := js_add now (expires_in data)\<rparr> else data);
          data2 =
            (if \<not> truthy (refresh_token_expires_at data1) \<and> truthy (refresh_token_expires_in data1)
             then data1\<lparr>refresh_token_expires_at := js_add now (refresh_token_expires_in data1)\<rparr>
             else data1)
      in data2)"

definition refreshOAuth2Token :: "OAuth1Token \<Rightarrow> world \<Rightarrow> (error + OAuth2Token) \<times> world" where
  "refreshOAuth2Token oauth1 w =
     (case getConsumer w of
        (Inl e, w1) \<Rightarrow> (Inl e, w1)
      | (Inr consumer, w1) \<Rightarrow>
          (case buildOAuth1Header consumer oauth1 w1 of
             (None, w2) \<Rightarrow> (Inl URIError, w2)
           | (Some authHeader, w2) \<Rightarrow>
               (let (res, w3) = fetch (exchange_request authHeader) w2 in
                case res of
                  Rejected \<Rightarrow> (Inl NetworkError, w3)
                | Response resp \<Rightarrow>
                    if \<not> ok resp then (Inl (ExchangeFailed (status resp) (body_text resp)), w3)
                    else
                      (case json_token resp of
                         None \<Rightarrow> (Inl SyntaxError, w3)
                       | Some data \<Rightarrow>
                           (let (now_ms, w4) = Date_now w3;
                                now = int (now_ms div 1000);
                                data' = absolute_expiry now data
                            in (Inr data', kv_put_oauth2 data' None w4))))))"

section \<open>The client (garmin-client module)\<close>

definition GARMIN_BASE :: string where
  "GARMIN_BASE = ''https://connectapi.garmin.com''"

definition USER_AGENT :: string where
  "USER_AGENT = ''com.garmin.android.apps.connectmobile''"

record GarminClient =
  oauth2Cache :: "OAuth2Token option"

text \<open>
  \<open>getAccessToken\<close>.  The part after the look at the in-process cache is
  \<open>getAccessToken_from_KV\<close>.
\<close>

definition getAccessToken_from_KV ::
  "GarminClient \<Rightarrow> world \<Rightarrow> (error + jsstring) \<times> GarminClient \<times> world" where
  "getAccessToken_from_KV c w =
     (let (tokenJson, w1) = kv_get_oauth2 w in
      case tokenJson of
        None \<Rightarrow> (Inl NoOAuth2Token, c, w1)
      | Some oauth2 \<Rightarrow>
          (let (now_ms, w2) = Date_now w1;
               now = int (now_ms div 1000)
           in if js_le (expires_at oauth2) (now + 60) then
                (let (oauth1Json, w3) = kv_get_oauth1 w2 in
                 case oauth1Json of
                   None \<Rightarrow> (Inl NoOAuth1Token, c, w3)
                 | Some oauth1 \<Rightarrow>
                     (case refreshOAuth2Token oauth1 w3 of
                        (Inl e, w4) \<Rightarrow> (Inl e, c, w4)
                      | (Inr refreshed, w4) \<Rightarrow>
                          (Inr (access_token refreshed), c\<lparr>oauth2Cache := Some refreshed\<rparr>, w4)))
              else (Inr (access_token oauth2), c\<lparr>oauth2Cache := Some oauth2\<rparr>, w2)))"

definition getAccessToken ::
  "GarminClient \<Rightarrow> world \<Rightarrow> (error + jsstring) \<times> GarminClient \<times> world" where
  "getAccessToken c w =
     (case oauth2Cache c of
        None \<Rightarrow> getAccessToken_from_KV c w
      | Some cached \<Rightarrow>
          (let (now_ms, w1) = Date_now w;
               now = int (now_ms div 1000)
           in if js_gt (expires_at cached) (now + 60) then (Inr (access_token cached), c, w1)
              else getAccessToken_from_KV c w1))"

text \<open>
  The requests of the client.  The URL is the base followed by the path; the search
  parameters that \<open>get\<close> sets are kept beside it.  The result of a call is \<open>None\<close> for
  JavaScript's \<open>null\<close>.
\<close>

definition bearer :: "jsstring \<Rightarrow> jsstring" where
  "bearer token = js ''Bearer '' @ token"

definition get_request :: "jsstring \<Rightarrow> jsobject option \<Rightarrow> jsstring \<Rightarrow> request" where
  "get_request path params token =
     \<lparr>http_method = GET, url = js GARMIN_BASE @ path,
      query = (case params of None \<Rightarrow> [] | Some ps \<Rightarrow> ps),
      authorization = Some (bearer token), content_type = None,
      user_agent = Some (js USER_AGENT), body = None\<rparr>"

definition body_request :: "http_method \<Rightarrow> jsstring \<Rightarrow> json \<Rightarrow> jsstring \<Rightarrow> request" where
  "body_request m path payload token =
     \<lparr>http_method = m, url = js GARMIN_BASE @ path, query = [],
      authorization = Some (bearer token), content_type = Some (js ''application/json''),
      user_agent = Some (js USER_AGENT), body = Some payload\<rparr>"

definition resp_json :: "response \<Rightarrow> GarminClient \<Rightarrow> world
    \<Rightarrow> (error + json option) \<times> GarminClient \<times> world" where
  "resp_json resp c w =
     (case json_value resp of None \<Rightarrow> (Inl SyntaxError, c, w) | Some v \<Rightarrow> (Inr (Some v), c, w))"

definition get ::
  "jsstring \<Rightarrow> jsobject option \<Rightarrow> GarminClient \<Rightarrow> world
     \<Rightarrow> (error + json option) \<times> GarminClient \<times> world" where
  "get path params c w =
     (case getAccessToken c w of
        (Inl e, c1, w1) \<Rightarrow> (Inl e, c1, w1)
      | (Inr token, c1, w1) \<Rightarrow>
          (let (res, w2) = fetch (get_request path params token) w1 in
           case res of
             Rejected \<Rightarrow> (Inl NetworkError, c1, w2)
           | Response resp \<Rightarrow>
               if status resp = 204 then (Inr None, c1, w2)
               else if status resp = 401 \<or> status resp = 403 then
                 (let c2 = c1\<lparr>oauth2Cache := None\<rparr> in
                  case getAccessToken c2 w2 of
                    (Inl e, c3, w3) \<Rightarrow> (Inl e, c3, w3)
                  | (Inr freshToken, c3, w3) \<Rightarrow>
                      (let (res', w4) = fetch (get_request path params freshToken) w3 in
                       case res' of
                         Rejected \<Rightarrow> (Inl NetworkError, c3, w4)
                       | Response retry \<Rightarrow>
                           if \<not> ok retry
                           then (Inl (GarminApiError (status retry) (body_text retry)), c3, w4)
                           else if status retry = 204 then (Inr None, c3, w4)
                           else resp_json retry c3 w4))
               else if \<not> ok resp
               then (Inl (GarminApiError (status resp) (body_text resp)), c1, w2)
               else resp_json resp c1 w2))"

text \<open>
  \<open>post\<close> and \<open>put\<close> differ in the method only.  Their result is \<open>null\<close> for an empty
  body and \<open>JSON.parse\<close> of the body otherwise.
\<close>

definition send_body ::
  "http_method \<Rightarrow> jsstring \<Rightarrow> json \<Rightarrow> GarminClient \<Rightarrow> world
     \<Rightarrow> (error + json option) \<times> GarminClient \<times> world" where
  "send_body m path payload c w =
     (case getAccessToken c w of
        (Inl e, c1, w1) \<Rightarrow> (Inl e, c1, w1)
      | (Inr token, c1, w1) \<Rightarrow>
          (let (res, w2) = fetch (body_request m path payload token) w1 in
           case res of
             Rejected \<Rightarrow> (Inl NetworkError, c1, w2)
           | Response resp \<Rightarrow>
               if status resp = 204 then (Inr None, c1, w2)
               else if \<not> ok resp
               then (Inl (GarminApiError (status resp) (body_text resp)), c1, w2)
               else if body_text resp = [] then (Inr None, c1, w2)
               else resp_json resp c1 w2))"

definition post ::
  "jsstring \<Rightarrow> json \<Rightarrow> GarminClient \<Rightarrow> world \<Rightarrow> (error + json option) \<times> GarminClient \<times> world"
where
  "post path payload c w = send_body POST path payload c w"

definition put ::
  "jsstring \<Rightarrow> json \<Rightarrow> GarminClient \<Rightarrow> world \<Rightarrow> (error + json option) \<times> GarminClient \<times> world"
where
  "put path payload c w = send_body PUT path payload c w"

text \<open>What an operation added to the trace, and the keys it wrote.\<close>

definition new_events :: "world \<Rightarrow> world \<Rightarrow> event list" where
  "new_events w w' = drop (length (trace w)) (trace w')"

fun put_key :: "event \<Rightarrow> string option" where
  "put_key (KVPut k ttl) = Some k"
| "put_key e = None"

definition written_keys :: "event list \<Rightarrow> string list" where
  "written_keys es = List.map_filter put_key es"

definition fetches :: "event list \<Rightarrow> request list" where
  "fetches es = List.map_filter (\<lambda>e. case e of Fetch r \<Rightarrow> Some r | _ \<Rightarrow> None) es"

section \<open>Observations used in the statements\<close>




text \<open>
  \<open>leaves_oauth1 w w'\<close>: from \<open>w\<close> to \<open>w'\<close> the stored OAuth1 credential is unchanged, the
  trace has only grown, and the only keys written are those of the OAuth2 credential and
  of the consumer key pair.  \<open>same_oracles\<close>: the clock, the random source, the HMAC and
  the server are the same.
\<close>

definition leaves_oauth1 :: "world \<Rightarrow> world \<Rightarrow> bool" where
  "leaves_oauth1 w w' \<longleftrightarrow>
     kv_oauth1_token (GARMIN_KV w') = kv_oauth1_token (GARMIN_KV w) \<and>
     trace w' = trace w @ new_events w w' \<and>
     set (written_keys (new_events w w')) \<subseteq> {''oauth2_token'', CONSUMER_KV_KEY}"

definition same_oracles :: "world \<Rightarrow> world \<Rightarrow> bool" where
  "same_oracles w w' \<longleftrightarrow>
     server w' = server w \<and> clock w' = clock w \<and> entropy w' = entropy w \<and>
     subtle_hmac_sha1 w' = subtle_hmac_sha1 w"

section \<open>Example environments\<close>

text \<open>
  Concrete values for the examples: a clock that stands at 1000 seconds, a namespace, a
  server that answers the consumer-key URL, the exchange URL and the data API.
\<close>

definition example_consumer :: OAuthConsumer where
  "example_consumer = \<lparr>consumer_key = js ''key'', consumer_secret = js ''secret''\<rparr>"

definition example_oauth1 :: OAuth1Token where
  "example_oauth1 =
     \<lparr>oauth_token = js ''token-1'', oauth_token_secret = js ''secret-1'', mfa_token = None,
      mfa_expiration_timestamp = None, domain = js ''garmin.com''\<rparr>"

definition example_token ::
  "string \<Rightarrow> int option \<Rightarrow> int option \<Rightarrow> int option \<Rightarrow> int option \<Rightarrow> OAuth2Token" where
  "example_token a ein eat rin rat =
     \<lparr>scope = js ''CONNECT_READ'', jti = js ''id'', token_type = js ''Bearer'',
      access_token = js a, refresh_token = js ''B'',
      expires_in = ein, expires_at = eat,
      refresh_token_expires_in = rin, refresh_token_expires_at = rat\<rparr>"

definition example_kv ::
  "OAuth1Token option \<Rightarrow> OAuth2Token option \<Rightarrow> OAuthConsumer option \<Rightarrow> KVNamespace" where
  "example_kv o1 o2 oc =
     \<lparr>kv_oauth1_token = map_option (\<lambda>v. (v, None)) o1,
      kv_oauth2_token = map_option (\<lambda>v. (v, None)) o2,
      kv_oauth_consumer = map_option (\<lambda>v. (v, Some 80000)) oc\<rparr>"

definition text_response :: "nat \<Rightarrow> string \<Rightarrow> response" where
  "text_response st txt =
     \<lparr>status = st, body_text = js txt, json_consumer = None, json_token = None,
      json_value = None\<rparr>"

definition token_response :: "OAuth2Token \<Rightarrow> response" where
  "token_response tok =
     \<lparr>status = 200, body_text = js ''{token}'', json_consumer = None, json_token = Some tok,
      json_value = Some (js ''{token}'')\<rparr>"

definition consumer_response :: "OAuthConsumer \<Rightarrow> response" where
  "consumer_response c =
     \<lparr>status = 200, body_text = js ''{consumer}'', json_consumer = Some c, json_token = None,
      json_value = Some (js ''{consumer}'')\<rparr>"

definition data_response :: "string \<Rightarrow> response" where
  "data_response txt =
     \<lparr>status = 200, body_text = js txt, json_consumer = None, json_token = None,
      json_value = Some (js txt)\<rparr>"

text \<open>
  The example server: \<open>consumer\<close> answers the consumer-key URL, \<open>exchange\<close> the exchange
  URL, and \<open>api\<close> lists the answers of the data API to the successive requests (a request
  beyond the list is rejected).
\<close>

definition example_server ::
  "fetch_result \<Rightarrow> fetch_result \<Rightarrow> fetch_result list \<Rightarrow> nat \<Rightarrow> request \<Rightarrow> fetch_result" where
  "example_server consumer exchange api n req =
     (if url req = js CONSUMER_URL then consumer
      else if url req = js EXCHANGE_URL then exchange
      else if n < length api then api ! n else Rejected)"

definition example_world :: "KVNamespace \<Rightarrow> (nat \<Rightarrow> request \<Rightarrow> fetch_result) \<Rightarrow> world" where
  "example_world kv srv =
     \<lparr>GARMIN_KV = kv, clock = (\<lambda>n. 1000999), clock_reads = 0,
      entropy = (\<lambda>n i. of_nat i), entropy_reads = 0,
      subtle_hmac_sha1 = (\<lambda>key data. replicate 20 0), server = srv, trace = []\<rparr>"

text \<open>
  \<open>after_exchange w h\<close>: the environment \<open>w\<close> after \<open>buildOAuth1Header\<close> has read the
  clock and the random source and the exchange request with header \<open>h\<close> was sent.
\<close>

definition after_exchange :: "world \<Rightarrow> jsstring \<Rightarrow> world" where
  "after_exchange w1 h =
     w1\<lparr>clock_reads := clock_reads w1 + 1, entropy_reads := entropy_reads w1 + 1,
        trace := trace w1 @ [Fetch (exchange_request h)]\<rparr>"

text \<open>
  Two example environments with a stored OAuth1 credential: in \<open>refresh_world\<close> the
  consumer key pair is cached and \<open>stored\<close> is the stored OAuth2 credential; in
  \<open>cold_world\<close> nothing else is stored.
\<close>

definition refresh_world :: "OAuth2Token option \<Rightarrow> fetch_result \<Rightarrow> fetch_result list \<Rightarrow> world" where
  "refresh_world stored exchange api =
     example_world (example_kv (Some example_oauth1) stored (Some example_consumer))
       (example_server Rejected exchange api)"

definition cold_world :: "fetch_result \<Rightarrow> fetch_result \<Rightarrow> world" where
  "cold_world consumer exchange =
     example_world (example_kv (Some example_oauth1) None None) (example_server consumer exchange [])"

section \<open>Percent-encoding\<close>

lemma unescaped_not_surrogate:
  "uriUnescaped c \<Longrightarrow> \<not> isTrailSurrogate c \<and> \<not> isLeadSurrogate c"
  unfolding uriUnescaped_def isTrailSurrogate_def isLeadSurrogate_def js_def word_le_nat_alt
  by auto

lemma encodeURIComponent_append:
  "uriUnescaped c \<Longrightarrow>
   encodeURIComponent (xs @ c # ys) =
     (case encodeURIComponent xs of None \<Rightarrow> None
      | Some a \<Rightarrow> (case encodeURIComponent ys of None \<Rightarrow> None | Some b \<Rightarrow> Some (a @ c # b)))"
proof (induction xs rule: encodeURIComponent.induct)
  case 1
  then show ?case by (simp split: option.splits)
next
  case (2 x xs)
  then show ?case
    by (cases xs) (auto simp: unescaped_not_surrogate split: option.splits)
qed

lemma hex_upper_nth: "n < 16 \<Longrightarrow> hex_upper ! n \<in> set hex_upper"
proof -
  have "length hex_upper = 16" by (simp add: hex_upper_def js_def)
  then show "n < 16 \<Longrightarrow> hex_upper ! n \<in> set hex_upper" by (simp del: set_map)
qed

lemma percentOctet_chars: "set (percentOctet b) \<subseteq> insert 0x25 (set hex_upper)"
proof -
  have "unat b < 256" using unsigned_less [of b, where ?'a = nat] by simp
  then have "unat b div 16 < 16" "unat b mod 16 < 16" by auto
  then have "hex_upper ! (unat b div 16) \<in> set hex_upper"
    "hex_upper ! (unat b mod 16) \<in> set hex_upper"
    by (simp_all only: hex_upper_nth)
  then show ?thesis by (simp add: percentOctet_def)
qed

lemma percentOctets_not_special: "c \<in> set (percentOctets bs) \<Longrightarrow> \<not> oauth_special c"
proof -
  assume "c \<in> set (percentOctets bs)"
  then obtain b where "c \<in> set (percentOctet b)" by (auto simp: percentOctets_def)
  then have "c \<in> insert 0x25 (set hex_upper)" using percentOctet_chars by blast
  then show ?thesis by (auto simp: oauth_special_def hex_upper_def js_def)
qed

lemma special_unescaped: "oauth_special c \<Longrightarrow> uriUnescaped c"
  by (auto simp: oauth_special_def uriUnescaped_def js_def)

lemma encode_special_iff:
  "encodeURIComponent s = Some e \<Longrightarrow> oauth_special c \<Longrightarrow> c \<in> set e \<longleftrightarrow> c \<in> set s"
proof (induction s arbitrary: e rule: encodeURIComponent.induct)
  case 1
  then show ?case by simp
next
  case (2 x xs)
  then show ?case
    by (cases xs) (auto split: if_splits dest: percentOctets_not_special special_unescaped unescaped_not_surrogate)
qed

lemma toString16_special:
  "Number_toString 16 33 = js ''21''" "Number_toString 16 39 = js ''27''"
  "Number_toString 16 40 = js ''28''" "Number_toString 16 41 = js ''29''"
  "Number_toString 16 42 = js ''2a''"
  by (simp_all add: Number_toString.simps digit_chars_def js_def)

lemma replace_special_append: "replace_special (a @ b) = replace_special a @ replace_special b"
  by (simp add: replace_special_def)

lemma length_replace_special:
  "length (replace_special e) = length e + 2 * length (filter oauth_special e)"
proof (induction e)
  case Nil
  then show ?case by (simp add: replace_special_def)
next
  case (Cons a e)
  then show ?case
    by (auto simp: replace_special_def oauth_special_def js_def toString16_special toUpperCase_def)
qed

lemma replace_special_id: "(\<forall>c\<in>set e. \<not> oauth_special c) \<Longrightarrow> replace_special e = e"
  by (induction e) (auto simp: replace_special_def)

lemma replace_special_eq_iff: "replace_special e = e \<longleftrightarrow> (\<forall>c\<in>set e. \<not> oauth_special c)"
proof
  assume eq: "replace_special e = e"
  have "length (filter oauth_special e) = 0"
    using length_replace_special [of e] eq by simp
  then show "\<forall>c\<in>set e. \<not> oauth_special c" by (simp add: filter_empty_conv)
qed (rule replace_special_id)


lemma replace_special_single:
  "replace_special [0x21] = js ''%21''" "replace_special [0x27] = js ''%27''"
  "replace_special [0x28] = js ''%28''" "replace_special [0x29] = js ''%29''"
  "replace_special [0x2A] = js ''%2A''"
  "\<not> oauth_special c \<Longrightarrow> replace_special [c] = [c]"
  by (simp_all add: replace_special_def oauth_special_def js_def toString16_special toUpperCase_def)

lemma percentEncode_append:
  "uriUnescaped c \<Longrightarrow>
   percentEncode (xs @ c # ys) =
     do { a \<leftarrow> percentEncode xs; b \<leftarrow> percentEncode ys; Some (a @ replace_special [c] @ b) }"
proof -
  assume u: "uriUnescaped c"
  have r: "replace_special (a @ c # b) = replace_special a @ replace_special [c] @ replace_special b"
    for a b
    using replace_special_append [of a "[c] @ b"] replace_special_append [of "[c]" b] by simp
  show ?thesis
    by (simp add: percentEncode_def encodeURIComponent_append [OF u] r split: option.splits)
qed

lemma rfc3986_unreserved:
  "c \<in> set (js ''ABCDEFGHIJKLMNOPQRSTUVWXYZabcdefghijklmnopqrstuvwxyz0123456789-._~'')
   \<Longrightarrow> uriUnescaped c \<and> \<not> oauth_special c"
proof -
  have "list_all (\<lambda>c. uriUnescaped c \<and> \<not> oauth_special c)
          (js ''ABCDEFGHIJKLMNOPQRSTUVWXYZabcdefghijklmnopqrstuvwxyz0123456789-._~'')"
    by code_simp
  then show "c \<in> set (js ''ABCDEFGHIJKLMNOPQRSTUVWXYZabcdefghijklmnopqrstuvwxyz0123456789-._~'')
   \<Longrightarrow> uriUnescaped c \<and> \<not> oauth_special c"
    unfolding list_all_iff by blast
qed

lemma percentEncode_Nil: "percentEncode [] = Some []"
  by (simp add: percentEncode_def replace_special_def)

lemma percentEncode_all_unreserved:
  "\<forall>c\<in>set s. uriUnescaped c \<and> \<not> oauth_special c \<Longrightarrow> percentEncode s = Some s"
proof (induction s)
  case Nil
  show ?case by (rule percentEncode_Nil)
next
  case (Cons a s)
  then have u: "uriUnescaped a" and n: "\<not> oauth_special a" and ih: "percentEncode s = Some s"
    by simp_all
  show ?case
    using percentEncode_append [OF u, of "[]" s]
    by (simp add: percentEncode_Nil ih replace_special_single(6) [OF n])
qed

lemma percentEncode_differs:
  "percentEncode s \<noteq> encodeURIComponent s \<longleftrightarrow>
     encodeURIComponent s \<noteq> None \<and> (\<exists>c\<in>set s. oauth_special c)"
proof (cases "encodeURIComponent s")
  case None
  then show ?thesis by (simp add: percentEncode_def)
next
  case (Some e)
  have "(\<exists>c\<in>set e. oauth_special c) \<longleftrightarrow> (\<exists>c\<in>set s. oauth_special c)"
    using encode_special_iff [OF Some] by blast
  then show ?thesis
    using Some by (simp add: percentEncode_def replace_special_eq_iff)
qed

text \<open>
  C5.  \<open>percentEncode\<close> works character by character: an RFC 3986 unreserved character
  (a letter, a digit, \<open>-\<close>, \<open>.\<close>, \<open>_\<close>, \<open>~\<close>) anywhere in the input is copied unchanged
  between the encodings of what precedes and what follows it, a string of unreserved
  characters is its own encoding, and each of \<open>!\<close>, \<open>'\<close>, \<open>(\<close>, \<open>)\<close>, \<open>*\<close> becomes
  \<open>%21\<close>, \<open>%27\<close>, \<open>%28\<close>, \<open>%29\<close>, \<open>%2A\<close>.  The result differs from that of
  \<open>encodeURIComponent\<close> exactly when the input holds one of those five characters
  (and \<open>encodeURIComponent\<close> does not throw; \<open>percentEncode\<close> throws exactly when it does).
\<close>

theorem percentEncode_characters:
  "(c \<in> set (js ''ABCDEFGHIJKLMNOPQRSTUVWXYZabcdefghijklmnopqrstuvwxyz0123456789-._~'') \<longrightarrow>
      percentEncode (xs @ [c] @ ys) =
        do { a \<leftarrow> percentEncode xs; b \<leftarrow> percentEncode ys; Some (a @ [c] @ b) })
   \<and> ((\<forall>d\<in>set s. d \<in> set (js ''ABCDEFGHIJKLMNOPQRSTUVWXYZabcdefghijklmnopqrstuvwxyz0123456789-._~''))
        \<longrightarrow> percentEncode s = Some s)
   \<and> percentEncode (xs @ js ''!'' @ ys) =
        do { a \<leftarrow> percentEncode xs; b \<leftarrow> percentEncode ys; Some (a @ js ''%21'' @ b) }
   \<and> percentEncode (xs @ js [CHR 0x27] @ ys) =
        do { a \<leftarrow> percentEncode xs; b \<leftarrow> percentEncode ys; Some (a @ js ''%27'' @ b) }
   \<and> percentEncode (xs @ js ''('' @ ys) =
        do { a \<leftarrow> percentEncode xs; b \<leftarrow> percentEncode ys; Some (a @ js ''%28'' @ b) }
   \<and> percentEncode (xs @ js '')'' @ ys) =
        do { a \<leftarrow> percentEncode xs; b \<leftarrow> percentEncode ys; Some (a @ js ''%29'' @ b) }
   \<and> percentEncode (xs @ js ''*'' @ ys) =
        do { a \<leftarrow> percentEncode xs; b \<leftarrow> percentEncode ys; Some (a @ js ''%2A'' @ b) }
   \<and> (percentEncode s \<noteq> encodeURIComponent s \<longleftrightarrow>
        encodeURIComponent s \<noteq> None \<and> (\<exists>d\<in>set s. d \<in> set (js ''!'()*'')))"
proof (intro conjI impI)
  assume "c \<in> set (js ''ABCDEFGHIJKLMNOPQRSTUVWXYZabcdefghijklmnopqrstuvwxyz0123456789-._~'')"
  then have "uriUnescaped c" "\<not> oauth_special c" using rfc3986_unreserved by blast+
  then show "percentEncode (xs @ [c] @ ys) =
        do { a \<leftarrow> percentEncode xs; b \<leftarrow> percentEncode ys; Some (a @ [c] @ b) }"
    by (simp add: percentEncode_append replace_special_single)
next
  assume "\<forall>d\<in>set s. d \<in> set (js ''ABCDEFGHIJKLMNOPQRSTUVWXYZabcdefghijklmnopqrstuvwxyz0123456789-._~'')"
  then have "\<forall>c\<in>set s. uriUnescaped c \<and> \<not> oauth_special c" using rfc3986_unreserved by blast
  then show "percentEncode s = Some s" by (rule percentEncode_all_unreserved)
next
  have u: "uriUnescaped 0x21" by (simp add: uriUnescaped_def js_def)
  show "percentEncode (xs @ js ''!'' @ ys) =
        do { a \<leftarrow> percentEncode xs; b \<leftarrow> percentEncode ys; Some (a @ js ''%21'' @ b) }"
    using percentEncode_append [OF u, of xs ys] by (simp add: replace_special_single js_def)
next
  have u: "uriUnescaped 0x27" by (simp add: uriUnescaped_def js_def)
  show "percentEncode (xs @ js [CHR 0x27] @ ys) =
        do { a \<leftarrow> percentEncode xs; b \<leftarrow> percentEncode ys; Some (a @ js ''%27'' @ b) }"
    using percentEncode_append [OF u, of xs ys] by (simp add: replace_special_single js_def)
next
  have u: "uriUnescaped 0x28" by (simp add: uriUnescaped_def js_def)
  show "percentEncode (xs @ js ''('' @ ys) =
        do { a \<leftarrow> percentEncode xs; b \<leftarrow> percentEncode ys; Some (a @ js ''%28'' @ b) }"
    using percentEncode_append [OF u, of xs ys] by (simp add: replace_special_single js_def)
next
  have u: "uriUnescaped 0x29" by (simp add: uriUnescaped_def js_def)
  show "percentEncode (xs @ js '')'' @ ys) =
        do { a \<leftarrow> percentEncode xs; b \<leftarrow> percentEncode ys; Some (a @ js ''%29'' @ b) }"
    using percentEncode_append [OF u, of xs ys] by (simp add: replace_special_single js_def)
next
  have u: "uriUnescaped 0x2A" by (simp add: uriUnescaped_def js_def)
  show "percentEncode (xs @ js ''*'' @ ys) =
        do { a \<leftarrow> percentEncode xs; b \<leftarrow> percentEncode ys; Some (a @ js ''%2A'' @ b) }"
    using percentEncode_append [OF u, of xs ys] by (simp add: replace_special_single js_def)
next
  show "percentEncode s \<noteq> encodeURIComponent s \<longleftrightarrow>
        encodeURIComponent s \<noteq> None \<and> (\<exists>d\<in>set s. d \<in> set (js ''!'()*''))"
    using percentEncode_differs [of s] by (simp add: oauth_special_def)
qed

theorem percentEncode_characters_witness:
  "percentEncode (js ''a b'' @ js ''~'' @ js ''(c)'') = Some (js ''a%20b~%28c%29'')
   \<and> percentEncode (js ''Az09-._~'') = Some (js ''Az09-._~'')
   \<and> percentEncode (js ''a!b'') \<noteq> encodeURIComponent (js ''a!b'')"
  using percentEncode_characters [of "0x7E" "js ''a b''" "js ''(c)''" "js ''Az09-._~''"]
    percentEncode_characters [of "0x7E" "js ''a b''" "js ''(c)''" "js ''a!b''"]
  by (simp add: js_def percentEncode_def replace_special_def oauth_special_def uriUnescaped_def
      isTrailSurrogate_def isLeadSurrogate_def percentOctets_def percentOctet_def utf8_def hex_upper_def
      toString16_special toUpperCase_def)

section \<open>The signed header against the reference algorithm\<close>

lemma insort_key_fst_lt:
  fixes k :: "'k::linorder"
  shows "k < fst y \<Longrightarrow> insort_key fst (k, v) (y # ys) = (k, v) # y # ys"
    and "fst y < k \<Longrightarrow> insort_key fst (k, v) (y # ys) = y # insort_key fst (k, v) ys"
  by auto

lemma sort_key_fst7:
  fixes a :: "'k::linorder"
  assumes "sorted_wrt (<) [a, b, s, c, d, e, f]"
  shows "sort_key fst [(a, x1), (b, x2), (c, x3), (d, x4), (e, x5), (f, x6), (s, x7)]
         = [(a, x1), (b, x2), (s, x7), (c, x3), (d, x4), (e, x5), (f, x6)]"
  using assms by (simp add: sort_key_def insort_key_fst_lt del: insort_key.simps(2))

lemma sort_key_fst6:
  fixes a :: "'k::linorder"
  assumes "sorted_wrt (<) [a, b, s, c, d, e, f]"
  shows "sort_key fst [(a, x1), (b, x2), (c, x3), (d, x4), (e, x5), (f, x6)]
         = [(a, x1), (b, x2), (c, x3), (d, x4), (e, x5), (f, x6)]"
  using assms by (simp add: sort_key_def insort_key_fst_lt del: insort_key.simps(2))

lemma percentEncode_keys:
  "percentEncode (js ''oauth_consumer_key'') = Some (js ''oauth_consumer_key'')"
  "percentEncode (js ''oauth_nonce'') = Some (js ''oauth_nonce'')"
  "percentEncode (js ''oauth_signature'') = Some (js ''oauth_signature'')"
  "percentEncode (js ''oauth_signature_method'') = Some (js ''oauth_signature_method'')"
  "percentEncode (js ''oauth_timestamp'') = Some (js ''oauth_timestamp'')"
  "percentEncode (js ''oauth_token'') = Some (js ''oauth_token'')"
  "percentEncode (js ''oauth_version'') = Some (js ''oauth_version'')"
  by code_simp+

lemma sort_keys6:
  "sort [js ''oauth_consumer_key'', js ''oauth_nonce'', js ''oauth_signature_method'',
         js ''oauth_timestamp'', js ''oauth_token'', js ''oauth_version'']
   = [js ''oauth_consumer_key'', js ''oauth_nonce'', js ''oauth_signature_method'',
         js ''oauth_timestamp'', js ''oauth_token'', js ''oauth_version'']"
  by code_simp

lemma sort_keys7:
  "sort [js ''oauth_consumer_key'', js ''oauth_nonce'', js ''oauth_signature_method'',
         js ''oauth_timestamp'', js ''oauth_token'', js ''oauth_version'', js ''oauth_signature'']
   = [js ''oauth_consumer_key'', js ''oauth_nonce'', js ''oauth_signature'', js ''oauth_signature_method'',
         js ''oauth_timestamp'', js ''oauth_token'', js ''oauth_version'']"
  by code_simp

lemma keys_less:
  "sorted_wrt (<) [js ''oauth_consumer_key'', js ''oauth_nonce'', js ''oauth_signature'',
     js ''oauth_signature_method'', js ''oauth_timestamp'', js ''oauth_token'', js ''oauth_version'']"
  by code_simp

lemma unat_of_char: "unat (of_char c :: 16 word) = of_char c"
proof -
  have "(of_char c :: nat) mod 256 = of_char c" by (rule of_char_mod_256)
  then have "(of_char c :: nat) < 256" by (metis mod_less_divisor zero_less_numeral)
  then have lt: "(of_char c :: nat) mod 65536 = of_char c" by (intro mod_less) linarith
  have "(of_char c :: 16 word) = of_nat (of_char c)" by (simp add: of_nat_of_char)
  then have "unat (of_char c :: 16 word) = unat (of_nat (of_char c :: nat) :: 16 word)" by simp
  also have "\<dots> = of_char c" using lt by (simp add: unat_of_nat)
  finally show ?thesis .
qed

lemma of_char_word_inj: "(of_char c :: 16 word) = of_char d \<longleftrightarrow> c = d"
proof
  assume "(of_char c :: 16 word) = of_char d"
  then have "unat (of_char c :: 16 word) = unat (of_char d :: 16 word)" by simp
  then show "c = d" by (simp add: unat_of_char)
qed simp

lemma js_eq_iff: "js a = js b \<longleftrightarrow> a = b"
  by (simp add: js_def inj_map_eq_map inj_def of_char_word_inj)

lemma obj_get6:
  fixes v1 v2 v3 v4 v5 v6 :: jsstring
  defines "P \<equiv> [(js ''oauth_consumer_key'', v1), (js ''oauth_nonce'', v2),
             (js ''oauth_signature_method'', v3), (js ''oauth_timestamp'', v4),
             (js ''oauth_token'', v5), (js ''oauth_version'', v6)]"
  shows "obj_get P (js ''oauth_consumer_key'') = v1"
    "obj_get P (js ''oauth_nonce'') = v2"
    "obj_get P (js ''oauth_signature_method'') = v3"
    "obj_get P (js ''oauth_timestamp'') = v4"
    "obj_get P (js ''oauth_token'') = v5"
    "obj_get P (js ''oauth_version'') = v6"
  by (simp_all add: P_def obj_get_def js_eq_iff)

lemma those_bind_Some_Cons:
  "those ((x \<bind> (\<lambda>e. Some (g e))) # xs) = do { e \<leftarrow> x; es \<leftarrow> those xs; Some (g e # es) }"
  by (cases x; cases "those xs"; simp)

lemma source_parts6:
  fixes f :: "jsstring \<Rightarrow> jsstring \<Rightarrow> 'a" and v1 v2 v3 v4 v5 v6 :: jsstring
  defines "P \<equiv> [(js ''oauth_consumer_key'', v1), (js ''oauth_nonce'', v2),
             (js ''oauth_signature_method'', v3), (js ''oauth_timestamp'', v4),
             (js ''oauth_token'', v5), (js ''oauth_version'', v6)]"
  shows "those (map (\<lambda>k. do { ek \<leftarrow> percentEncode k; ev \<leftarrow> percentEncode (obj_get P k);
                              Some (f ek ev) }) (sort (Object_keys P)))
   = do { e1 \<leftarrow> percentEncode v1; e2 \<leftarrow> percentEncode v2; e3 \<leftarrow> percentEncode v3;
          e4 \<leftarrow> percentEncode v4; e5 \<leftarrow> percentEncode v5; e6 \<leftarrow> percentEncode v6;
          Some [f (js ''oauth_consumer_key'') e1, f (js ''oauth_nonce'') e2,
                f (js ''oauth_signature_method'') e3, f (js ''oauth_timestamp'') e4,
                f (js ''oauth_token'') e5, f (js ''oauth_version'') e6] }"
proof -
  have keys: "sort (Object_keys P) = [js ''oauth_consumer_key'', js ''oauth_nonce'',
      js ''oauth_signature_method'', js ''oauth_timestamp'', js ''oauth_token'', js ''oauth_version'']"
    by (simp only: P_def Object_keys_def list.map fst_conv sort_keys6)
  show ?thesis
    unfolding keys
    by (simp add: percentEncode_keys obj_get6 [of v1 v2 v3 v4 v5 v6, folded P_def]
        those_bind_Some_Cons del: those.simps(2))
qed


lemma obj_set_signature:
  fixes v1 v2 v3 v4 v5 v6 :: jsstring
  shows "obj_set [(js ''oauth_consumer_key'', v1), (js ''oauth_nonce'', v2),
             (js ''oauth_signature_method'', v3), (js ''oauth_timestamp'', v4),
             (js ''oauth_token'', v5), (js ''oauth_version'', v6)] (js ''oauth_signature'') v7
         = [(js ''oauth_consumer_key'', v1), (js ''oauth_nonce'', v2),
             (js ''oauth_signature_method'', v3), (js ''oauth_timestamp'', v4),
             (js ''oauth_token'', v5), (js ''oauth_version'', v6), (js ''oauth_signature'', v7)]"
  by (simp add: obj_set_def Object_keys_def js_eq_iff)

lemma obj_get7:
  fixes v1 v2 v3 v4 v5 v6 v7 :: jsstring
  defines "P \<equiv> [(js ''oauth_consumer_key'', v1), (js ''oauth_nonce'', v2),
             (js ''oauth_signature_method'', v3), (js ''oauth_timestamp'', v4),
             (js ''oauth_token'', v5), (js ''oauth_version'', v6), (js ''oauth_signature'', v7)]"
  shows "obj_get P (js ''oauth_consumer_key'') = v1"
    "obj_get P (js ''oauth_nonce'') = v2"
    "obj_get P (js ''oauth_signature_method'') = v3"
    "obj_get P (js ''oauth_timestamp'') = v4"
    "obj_get P (js ''oauth_token'') = v5"
    "obj_get P (js ''oauth_version'') = v6"
    "obj_get P (js ''oauth_signature'') = v7"
  by (simp_all add: P_def obj_get_def js_eq_iff)

lemma source_parts7:
  fixes f :: "jsstring \<Rightarrow> jsstring \<Rightarrow> 'a" and v1 v2 v3 v4 v5 v6 v7 :: jsstring
  defines "P \<equiv> [(js ''oauth_consumer_key'', v1), (js ''oauth_nonce'', v2),
             (js ''oauth_signature_method'', v3), (js ''oauth_timestamp'', v4),
             (js ''oauth_token'', v5), (js ''oauth_version'', v6), (js ''oauth_signature'', v7)]"
  shows "those (map (\<lambda>k. do { ek \<leftarrow> percentEncode k; ev \<leftarrow> percentEncode (obj_get P k);
                              Some (f ek ev) }) (sort (Object_keys P)))
   = do { e1 \<leftarrow> percentEncode v1; e2 \<leftarrow> percentEncode v2; e7 \<leftarrow> percentEncode v7;
          e3 \<leftarrow> percentEncode v3;
          e4 \<leftarrow> percentEncode v4; e5 \<leftarrow> percentEncode v5; e6 \<leftarrow> percentEncode v6;
          Some [f (js ''oauth_consumer_key'') e1, f (js ''oauth_nonce'') e2,
                f (js ''oauth_signature'') e7,
                f (js ''oauth_signature_method'') e3, f (js ''oauth_timestamp'') e4,
                f (js ''oauth_token'') e5, f (js ''oauth_version'') e6] }"
proof -
  have keys: "sort (Object_keys P) = [js ''oauth_consumer_key'', js ''oauth_nonce'',
      js ''oauth_signature'',
      js ''oauth_signature_method'', js ''oauth_timestamp'', js ''oauth_token'', js ''oauth_version'']"
    by (simp only: P_def Object_keys_def list.map fst_conv sort_keys7)
  show ?thesis
    unfolding keys
    by (simp add: percentEncode_keys obj_get7 [of v1 v2 v3 v4 v5 v6 v7, folded P_def]
        those_bind_Some_Cons del: those.simps(2))
qed

lemma spec_parameter_string6:
  fixes v1 v2 v3 v4 v5 v6 :: jsstring
  shows "spec_parameter_string [(js ''oauth_consumer_key'', v1), (js ''oauth_nonce'', v2),
             (js ''oauth_signature_method'', v3), (js ''oauth_timestamp'', v4),
             (js ''oauth_token'', v5), (js ''oauth_version'', v6)]
   = do { e1 \<leftarrow> percentEncode v1; e2 \<leftarrow> percentEncode v2; e3 \<leftarrow> percentEncode v3;
          e4 \<leftarrow> percentEncode v4; e5 \<leftarrow> percentEncode v5; e6 \<leftarrow> percentEncode v6;
          Some (join (js ''&'')
               [js ''oauth_consumer_key'' @ js ''='' @ e1, js ''oauth_nonce'' @ js ''='' @ e2,
                js ''oauth_signature_method'' @ js ''='' @ e3, js ''oauth_timestamp'' @ js ''='' @ e4,
                js ''oauth_token'' @ js ''='' @ e5, js ''oauth_version'' @ js ''='' @ e6]) }"
  by (simp add: spec_parameter_string_def spec_encode_pairs_def percentEncode_keys
      those_bind_Some_Cons sort_key_fst6 [OF keys_less] del: those.simps(2) sort_key_simps join.simps)

lemma signHeader_reference:
  "signHeader hmac consumer oauth1 now_ms array =
     spec_header hmac (js ''POST'') (js EXCHANGE_URL) consumer oauth1
       (Number_toString 10 (now_ms div 1000)) (generateNonce array)"
  apply (simp add: signHeader_def Let_def source_parts6 obj_set_signature source_parts7 hmacSha1_def
      spec_header_def spec_parameter_string6 spec_base_string_def spec_signing_key_def
      those_bind_Some_Cons sort_key_fst7 [OF keys_less]
      del: those.simps(2) sort_key_simps join.simps)
  apply (cases "percentEncode (consumer_key consumer)"; simp del: join.simps)
  apply (cases "percentEncode (generateNonce array)"; simp del: join.simps)
  apply (cases "percentEncode (js ''HMAC-SHA1'')"; simp del: join.simps)
  apply (cases "percentEncode (Number_toString 10 (now_ms div 1000))"; simp del: join.simps)
  apply (cases "percentEncode (oauth_token oauth1)"; simp del: join.simps)
  apply (cases "percentEncode (js ''1.0'')"; simp del: join.simps)
  apply (cases "percentEncode (js EXCHANGE_URL)"; simp del: join.simps)
  apply (cases "percentEncode (consumer_secret consumer)"; simp del: join.simps)
  apply (cases "percentEncode (oauth_token_secret oauth1)"; simp del: join.simps)
  apply (simp split: Option.bind_split)
  done

text \<open>
  C2.  For every consumer key pair and OAuth1 credential, with the timestamp read from the
  clock and the nonce made from the random bytes, \<open>buildOAuth1Header\<close> returns exactly
  the header of the reference algorithm of the specification: the six protocol parameters
  percent-encoded, sorted by encoded key and joined with \<open>&\<close>; the base string
  \<open>POST\<close>, encoded exchange URL and encoded parameter string joined with \<open>&\<close>; the
  signing key of the two encoded secrets; the signature the base 64 of the HMAC-SHA1
  digest; and \<open>OAuth\<close> followed by the seven parameters sorted by key, each as
  \<open>key="encoded value"\<close>, separated by a comma and a space.  Both throw on the same inputs.
\<close>

theorem buildOAuth1Header_reference:
  "fst (buildOAuth1Header consumer oauth1 w) =
     spec_header (subtle_hmac_sha1 w) (js ''POST'') (js EXCHANGE_URL) consumer oauth1
       (Number_toString 10 (clock w (clock_reads w) div 1000))
       (generateNonce (map (entropy w (entropy_reads w)) [0..<16]))"
  by (simp add: buildOAuth1Header_def Date_now_def getRandomValues_def signHeader_reference)

section \<open>When the header can be built\<close>

definition ascii :: "jsstring \<Rightarrow> bool" where
  "ascii s = (\<forall>c\<in>set s. c < 0x80)"

lemma ascii_simps [simp]:
  "ascii []" "ascii (c # s) \<longleftrightarrow> c < 0x80 \<and> ascii s" "ascii (s @ t) \<longleftrightarrow> ascii s \<and> ascii t"
  by (auto simp: ascii_def)

lemma ascii_js: "ascii (js s) \<longleftrightarrow> (\<forall>c\<in>set s. (of_char c :: nat) < 128)"
proof -
  have "(of_char c :: 16 word) < 0x80 \<longleftrightarrow> (of_char c :: nat) < 128" for c
    by (simp add: word_less_nat_alt unat_of_char)
  then show ?thesis by (simp add: ascii_def js_def)
qed

lemma ascii_not_surrogate: "c < 0x80 \<Longrightarrow> \<not> isLeadSurrogate c \<and> \<not> isTrailSurrogate c"
  unfolding isLeadSurrogate_def isTrailSurrogate_def word_le_nat_alt word_less_nat_alt by simp

lemma unescaped_ascii: "uriUnescaped c \<Longrightarrow> c < 0x80"
  unfolding uriUnescaped_def js_def word_le_nat_alt word_less_nat_alt by auto

lemma encodeURIComponent_ascii_total: "ascii s \<Longrightarrow> encodeURIComponent s \<noteq> None"
  by (induction s) (auto simp: ascii_not_surrogate)

lemma percentOctets_ascii: "ascii (percentOctets bs)"
proof -
  have "c < 0x80" if "c \<in> insert 0x25 (set hex_upper)" for c :: "16 word"
    using that by (auto simp: hex_upper_def js_def)
  then have "ascii (percentOctet b)" for b
    using percentOctet_chars [of b] by (auto simp: ascii_def)
  then show ?thesis by (induction bs) (simp_all add: percentOctets_def)
qed

lemma encodeURIComponent_ascii: "encodeURIComponent s = Some e \<Longrightarrow> ascii e"
proof (induction s arbitrary: e rule: encodeURIComponent.induct)
  case 1
  then show ?case by simp
next
  case (2 c cs)
  then show ?case
    by (cases cs) (auto simp: percentOctets_ascii unescaped_ascii split: if_splits)
qed

lemma replace_special_ascii: "ascii e \<Longrightarrow> ascii (replace_special e)"
proof (induction e)
  case Nil
  then show ?case by (simp add: replace_special_def)
next
  case (Cons c e)
  have "replace_special (c # e) = replace_special [c] @ replace_special e"
    using replace_special_append [of "[c]" e] by simp
  moreover have "ascii (replace_special [c])"
  proof (cases "oauth_special c")
    case True
    then consider "c = 0x21" | "c = 0x27" | "c = 0x28" | "c = 0x29" | "c = 0x2A"
      by (auto simp: oauth_special_def js_def)
    then show ?thesis
      by cases (simp_all add: replace_special_single js_def)
  next
    case False
    then show ?thesis using Cons.prems by (simp add: replace_special_single)
  qed
  ultimately show ?case using Cons by simp
qed

lemma percentEncode_ascii: "percentEncode s = Some e \<Longrightarrow> ascii e"
  by (auto simp: percentEncode_def dest: encodeURIComponent_ascii intro: replace_special_ascii)

lemma percentEncode_ascii_total: "ascii s \<Longrightarrow> \<exists>e. percentEncode s = Some e \<and> ascii e"
  using encodeURIComponent_ascii_total [of s] percentEncode_ascii [of s]
  by (auto simp: percentEncode_def)

lemma join_ascii: "ascii sep \<Longrightarrow> \<forall>p\<in>set ps. ascii p \<Longrightarrow> ascii (join sep ps)"
  by (induction sep ps rule: join.induct) simp_all

lemma digit_chars_ascii: "n < 16 \<Longrightarrow> digit_chars ! n < 0x80"
proof -
  have "list_all (\<lambda>c. c < 0x80) digit_chars" by (simp add: digit_chars_def js_def)
  moreover have "length digit_chars = 16" by (simp add: digit_chars_def js_def)
  ultimately show "n < 16 \<Longrightarrow> digit_chars ! n < 0x80"
    by (simp add: list_all_length)
qed

lemma Number_toString_ascii:
  "2 \<le> radix \<Longrightarrow> radix \<le> 16 \<Longrightarrow> ascii (Number_toString radix n)"
proof (induction radix n rule: Number_toString.induct)
  case (1 radix n)
  show ?case
  proof (cases "n < radix")
    case True
    then have "n < 16" using "1.prems" by simp
    then show ?thesis
      using True by (subst Number_toString.simps) (simp add: digit_chars_ascii)
  next
    case False
    have "n mod radix < radix" using "1.prems" by simp
    then have "n mod radix < 16" using "1.prems" by linarith
    then show ?thesis
      using False "1.prems" "1.IH"
      by (subst Number_toString.simps) (simp add: digit_chars_ascii)
  qed
qed

lemma padStart0_ascii: "ascii s \<Longrightarrow> ascii (padStart0 n s)"
  by (auto simp: padStart0_def ascii_def)

lemma generateNonce_ascii: "ascii (generateNonce array)"
proof (induction array)
  case Nil
  then show ?case by (simp add: generateNonce_def)
next
  case (Cons b array)
  have "ascii (padStart0 2 (Number_toString 16 (unat b)))"
    by (simp add: padStart0_ascii Number_toString_ascii)
  then show ?case using Cons by (simp add: generateNonce_def)
qed

lemma base64_chars_ascii: "n < 64 \<Longrightarrow> base64_chars ! n < 0x80"
proof -
  have "list_all (\<lambda>c. c < 0x80) base64_chars" by (simp add: base64_chars_def js_def)
  moreover have "length base64_chars = 64" by (simp add: base64_chars_def js_def)
  ultimately show "n < 64 \<Longrightarrow> base64_chars ! n < 0x80"
    by (simp add: list_all_length)
qed

lemma unat_byte: "unat (b :: 8 word) < 256"
  using unsigned_less [of b, where ?'a = nat] by simp

lemma btoa_fromCharCode_ascii: "ascii (btoa_fromCharCode bs)"
proof (induction bs rule: btoa_fromCharCode.induct)
  case 1
  then show ?case by simp
next
  case (2 a)
  have "unat a div 4 < 64" "unat a mod 4 * 16 < 64" using unat_byte [of a] by auto
  then show ?case by (simp add: base64_chars_ascii)
next
  case (3 a b)
  have "unat a div 4 < 64" "unat a mod 4 * 16 + unat b div 16 < 64" "unat b mod 16 * 4 < 64"
    using unat_byte [of a] unat_byte [of b] by auto
  then show ?case by (simp add: base64_chars_ascii)
next
  case (4 a b c rest)
  have "unat a div 4 < 64" "unat a mod 4 * 16 + unat b div 16 < 64"
    "unat b mod 16 * 4 + unat c div 64 < 64" "unat c mod 64 < 64"
    using unat_byte [of a] unat_byte [of b] unat_byte [of c] by auto
  then show ?case using 4 by (simp add: base64_chars_ascii)
qed

lemma percentEncode_constants:
  "\<exists>e. percentEncode (js ''HMAC-SHA1'') = Some e \<and> ascii e"
  "\<exists>e. percentEncode (js ''1.0'') = Some e \<and> ascii e"
  "\<exists>e. percentEncode (js EXCHANGE_URL) = Some e \<and> ascii e"
  by (rule percentEncode_ascii_total, simp add: ascii_js EXCHANGE_URL_def)+

lemma signHeader_total:
  assumes "percentEncode (consumer_key consumer) \<noteq> None"
    and "percentEncode (consumer_secret consumer) \<noteq> None"
    and "percentEncode (oauth_token oauth1) \<noteq> None"
    and "percentEncode (oauth_token_secret oauth1) \<noteq> None"
  shows "signHeader hmac consumer oauth1 now_ms array \<noteq> None"
proof -
  obtain e1 where e1: "percentEncode (consumer_key consumer) = Some e1" using assms by auto
  obtain ecs where ecs: "percentEncode (consumer_secret consumer) = Some ecs" using assms by auto
  obtain e5 where e5: "percentEncode (oauth_token oauth1) = Some e5" using assms by auto
  obtain ets where ets: "percentEncode (oauth_token_secret oauth1) = Some ets" using assms by auto
  obtain e2 where e2: "percentEncode (generateNonce array) = Some e2"
    using percentEncode_ascii_total [OF generateNonce_ascii] by blast
  obtain e4 where e4: "percentEncode (Number_toString 10 (now_ms div 1000)) = Some e4"
    using percentEncode_ascii_total [OF Number_toString_ascii [of 10]] by force
  obtain e3 where e3: "percentEncode (js ''HMAC-SHA1'') = Some e3"
    using percentEncode_constants by blast
  obtain e6 where e6: "percentEncode (js ''1.0'') = Some e6"
    using percentEncode_constants by blast
  obtain eu where eu: "percentEncode (js EXCHANGE_URL) = Some eu"
    using percentEncode_constants by blast
  note es = e1 e2 e3 e4 e5 e6
  have a: "ascii e1" "ascii e2" "ascii e3" "ascii e4" "ascii e5" "ascii e6"
    using es by (auto dest: percentEncode_ascii)
  let ?ps = "join (js ''&'')
       [js ''oauth_consumer_key'' @ js ''='' @ e1, js ''oauth_nonce'' @ js ''='' @ e2,
        js ''oauth_signature_method'' @ js ''='' @ e3, js ''oauth_timestamp'' @ js ''='' @ e4,
        js ''oauth_token'' @ js ''='' @ e5, js ''oauth_version'' @ js ''='' @ e6]"
  have "ascii ?ps"
    by (rule join_ascii) (simp_all add: a ascii_js)
  then obtain ep where ep: "percentEncode ?ps = Some ep"
    using percentEncode_ascii_total by blast
  let ?sig = "hmacSha1 hmac (ecs @ js ''&'' @ ets) (join (js ''&'') [js ''POST'', eu, ep])"
  obtain es where sg: "percentEncode ?sig = Some es"
    using percentEncode_ascii_total [OF btoa_fromCharCode_ascii] unfolding hmacSha1_def by blast
  show ?thesis
    by (simp add: signHeader_def Let_def source_parts6 obj_set_signature source_parts7
        e1 e2 e3 e4 e5 e6 eu ecs ets ep sg
        del: those.simps(2) sort_key_simps join.simps)
qed

section \<open>Effects of the operations\<close>

lemma new_events_append: "trace w' = trace w @ es \<Longrightarrow> new_events w w' = es"
  by (simp add: new_events_def)

lemma written_keys_simps [simp]:
  "written_keys [] = []"
  "written_keys (KVGet k # es) = written_keys es"
  "written_keys (Fetch r # es) = written_keys es"
  "written_keys (KVPut k ttl # es) = k # written_keys es"
  by (simp_all add: written_keys_def List.map_filter_simps)

lemma fetches_simps [simp]:
  "fetches [] = []"
  "fetches (KVGet k # es) = fetches es"
  "fetches (Fetch r # es) = r # fetches es"
  "fetches (KVPut k ttl # es) = fetches es"
  by (simp_all add: fetches_def List.map_filter_simps)


lemma written_keys_append [simp]: "written_keys (a @ b) = written_keys a @ written_keys b"
  by (simp add: written_keys_def List.map_filter_def)

lemma fetches_append [simp]: "fetches (a @ b) = fetches a @ fetches b"
  by (simp add: fetches_def List.map_filter_def)

lemma leaves_oauth1_refl: "leaves_oauth1 w w"
  by (simp add: leaves_oauth1_def new_events_def)

lemma leaves_oauth1I:
  "kv_oauth1_token (GARMIN_KV w') = kv_oauth1_token (GARMIN_KV w) \<Longrightarrow> trace w' = trace w @ es \<Longrightarrow>
   set (written_keys es) \<subseteq> {''oauth2_token'', CONSUMER_KV_KEY} \<Longrightarrow> leaves_oauth1 w w'"
  by (simp add: leaves_oauth1_def new_events_append)

lemma leaves_oauth1_trans:
  assumes "leaves_oauth1 w w1" and "leaves_oauth1 w1 w2"
  shows "leaves_oauth1 w w2"
proof -
  have t: "trace w2 = trace w @ (new_events w w1 @ new_events w1 w2)"
    using assms by (simp add: leaves_oauth1_def)
  show ?thesis
  proof (rule leaves_oauth1I [OF _ t])
    show "kv_oauth1_token (GARMIN_KV w2) = kv_oauth1_token (GARMIN_KV w)"
      using assms by (simp add: leaves_oauth1_def)
    show "set (written_keys (new_events w w1 @ new_events w1 w2)) \<subseteq> {''oauth2_token'', CONSUMER_KV_KEY}"
      using assms by (simp add: leaves_oauth1_def)
  qed
qed

lemma leaves_primitives:
  "leaves_oauth1 w (snd (Date_now w))"
  "leaves_oauth1 w (snd (getRandomValues n w))"
  "leaves_oauth1 w (snd (fetch r w))"
  "leaves_oauth1 w (snd (kv_get_oauth1 w))"
  "leaves_oauth1 w (snd (kv_get_oauth2 w))"
  "leaves_oauth1 w (snd (kv_get_consumer w))"
  "leaves_oauth1 w (kv_put_oauth2 v ttl w)"
  "leaves_oauth1 w (kv_put_consumer c ttl w)"
  by (simp_all add: leaves_oauth1_def new_events_def Date_now_def getRandomValues_def fetch_def
      kv_get_oauth1_def kv_get_oauth2_def kv_get_consumer_def kv_put_oauth2_def kv_put_consumer_def)

lemma same_oracles_refl: "same_oracles w w"
  by (simp add: same_oracles_def)

lemma same_oracles_trans: "same_oracles w w1 \<Longrightarrow> same_oracles w1 w2 \<Longrightarrow> same_oracles w w2"
  by (simp add: same_oracles_def)

lemma same_oracles_primitives:
  "same_oracles w (snd (Date_now w))"
  "same_oracles w (snd (getRandomValues n w))"
  "same_oracles w (snd (fetch r w))"
  "same_oracles w (snd (kv_get_oauth1 w))"
  "same_oracles w (snd (kv_get_oauth2 w))"
  "same_oracles w (snd (kv_get_consumer w))"
  "same_oracles w (kv_put_oauth2 v ttl w)"
  "same_oracles w (kv_put_consumer c ttl w)"
  by (simp_all add: same_oracles_def Date_now_def getRandomValues_def fetch_def kv_get_oauth1_def
      kv_get_oauth2_def kv_get_consumer_def kv_put_oauth2_def kv_put_consumer_def)

lemma leaves_pairs:
  "Date_now w = (n, w') \<Longrightarrow> leaves_oauth1 w w'"
  "getRandomValues k w = (bs, w') \<Longrightarrow> leaves_oauth1 w w'"
  "fetch r w = (res, w') \<Longrightarrow> leaves_oauth1 w w'"
  "kv_get_oauth1 w = (o1, w') \<Longrightarrow> leaves_oauth1 w w'"
  "kv_get_oauth2 w = (o2, w') \<Longrightarrow> leaves_oauth1 w w'"
  "kv_get_consumer w = (oc, w') \<Longrightarrow> leaves_oauth1 w w'"
  using leaves_primitives(1) [of w] leaves_primitives(2) [of w k] leaves_primitives(3) [of w r]
    leaves_primitives(4) [of w] leaves_primitives(5) [of w] leaves_primitives(6) [of w]
  by auto

lemma same_pairs:
  "Date_now w = (n, w') \<Longrightarrow> same_oracles w w'"
  "getRandomValues k w = (bs, w') \<Longrightarrow> same_oracles w w'"
  "fetch r w = (res, w') \<Longrightarrow> same_oracles w w'"
  "kv_get_oauth1 w = (o1, w') \<Longrightarrow> same_oracles w w'"
  "kv_get_oauth2 w = (o2, w') \<Longrightarrow> same_oracles w w'"
  "kv_get_consumer w = (oc, w') \<Longrightarrow> same_oracles w w'"
  using same_oracles_primitives(1) [of w] same_oracles_primitives(2) [of w k]
    same_oracles_primitives(3) [of w r] same_oracles_primitives(4) [of w]
    same_oracles_primitives(5) [of w] same_oracles_primitives(6) [of w]
  by auto

lemma getConsumer_leaves: "getConsumer w = (r, w') \<Longrightarrow> leaves_oauth1 w w'"
  unfolding getConsumer_def
  by (auto split: prod.splits option.splits fetch_result.splits if_splits
      dest!: leaves_pairs intro: leaves_oauth1_trans leaves_primitives)

lemma getConsumer_same: "getConsumer w = (r, w') \<Longrightarrow> same_oracles w w'"
  unfolding getConsumer_def
  by (auto split: prod.splits option.splits fetch_result.splits if_splits
      dest!: same_pairs intro: same_oracles_trans same_oracles_primitives)

lemma buildOAuth1Header_leaves: "buildOAuth1Header c t w = (h, w') \<Longrightarrow> leaves_oauth1 w w'"
  unfolding buildOAuth1Header_def
  by (auto split: prod.splits dest!: leaves_pairs intro: leaves_oauth1_trans)

lemma buildOAuth1Header_same: "buildOAuth1Header c t w = (h, w') \<Longrightarrow> same_oracles w w'"
  unfolding buildOAuth1Header_def
  by (auto split: prod.splits dest!: same_pairs intro: same_oracles_trans)

lemma refreshOAuth2Token_leaves: "refreshOAuth2Token t w = (r, w') \<Longrightarrow> leaves_oauth1 w w'"
  unfolding refreshOAuth2Token_def Let_def
  by (auto split: prod.splits sum.splits option.splits fetch_result.splits if_splits
      dest!: leaves_pairs getConsumer_leaves buildOAuth1Header_leaves
      intro: leaves_oauth1_trans leaves_primitives)
    (meson leaves_oauth1_trans leaves_primitives)

lemma refreshOAuth2Token_same: "refreshOAuth2Token t w = (r, w') \<Longrightarrow> same_oracles w w'"
  unfolding refreshOAuth2Token_def Let_def
  by (auto split: prod.splits sum.splits option.splits fetch_result.splits if_splits
      dest!: same_pairs getConsumer_same buildOAuth1Header_same
      intro: same_oracles_trans same_oracles_primitives)
    (meson same_oracles_trans same_oracles_primitives)


lemma getAccessToken_from_KV_leaves:
  "getAccessToken_from_KV c w = (r, c', w') \<Longrightarrow> leaves_oauth1 w w'"
  unfolding getAccessToken_from_KV_def Let_def
  by (auto split: prod.splits sum.splits option.splits if_splits
      dest!: leaves_pairs refreshOAuth2Token_leaves
      intro: leaves_oauth1_trans leaves_primitives)

lemma getAccessToken_leaves: "getAccessToken c w = (r, c', w') \<Longrightarrow> leaves_oauth1 w w'"
  unfolding getAccessToken_def Let_def
  by (auto split: prod.splits option.splits if_splits
      dest!: leaves_pairs getAccessToken_from_KV_leaves
      intro: leaves_oauth1_trans leaves_primitives leaves_oauth1_refl)

lemma resp_json_world: "resp_json resp c w = (r, c', w') \<Longrightarrow> w' = w \<and> c' = c"
  by (auto simp: resp_json_def split: option.splits)

lemma get_leaves: "get path params c w = (r, c', w') \<Longrightarrow> leaves_oauth1 w w'"
  unfolding get_def Let_def
  by (auto split: prod.splits sum.splits fetch_result.splits if_splits
      dest!: leaves_pairs getAccessToken_leaves resp_json_world
      intro: leaves_oauth1_trans)

lemma send_body_leaves: "send_body m path payload c w = (r, c', w') \<Longrightarrow> leaves_oauth1 w w'"
  unfolding send_body_def Let_def
  by (auto split: prod.splits sum.splits fetch_result.splits if_splits
      dest!: leaves_pairs getAccessToken_leaves resp_json_world
      intro: leaves_oauth1_trans)


section \<open>The consumer key cache and the refresh\<close>

lemmas world_defs = fetch_def kv_get_consumer_def kv_get_oauth1_def kv_get_oauth2_def
  kv_put_consumer_def kv_put_oauth2_def Date_now_def getRandomValues_def

lemma url_consumer_request: "url consumer_request \<noteq> js EXCHANGE_URL"
  by (simp add: consumer_request_def js_eq_iff CONSUMER_URL_def EXCHANGE_URL_def)

text \<open>
  C7.  \<open>getConsumer\<close> returns the cached consumer key pair with no fetch and no write
  whenever the cache entry is present (the only event is the read of the key).  On a miss
  it fetches the fixed consumer-key URL exactly once; on success it stores the pair with a
  TTL of 86400 seconds and then returns it; when the fetch fails (a rejected fetch, or a
  status outside 200 to 299: the error ``Failed to fetch OAuth consumer keys'', the
  specification's UpstreamUnavailable) the call fails with no second fetch and no write.
\<close>

theorem getConsumer_policy:
  assumes "getConsumer w = (r, w')"
  shows
    "(\<forall>c ttl. kv_oauth_consumer (GARMIN_KV w) = Some (c, ttl) \<longrightarrow>
        r = Inr c \<and> new_events w w' = [KVGet CONSUMER_KV_KEY] \<and> GARMIN_KV w' = GARMIN_KV w)
     \<and> (kv_oauth_consumer (GARMIN_KV w) = None \<longrightarrow>
        (case server w (length (filter is_Fetch (trace w))) consumer_request of
           Rejected \<Rightarrow>
             r = Inl NetworkError
             \<and> new_events w w' = [KVGet CONSUMER_KV_KEY, Fetch consumer_request]
             \<and> GARMIN_KV w' = GARMIN_KV w
         | Response resp \<Rightarrow>
             (\<not> ok resp \<longrightarrow>
                r = Inl (ConsumerFetchFailed (status resp))
                \<and> new_events w w' = [KVGet CONSUMER_KV_KEY, Fetch consumer_request]
                \<and> GARMIN_KV w' = GARMIN_KV w)
             \<and> (\<forall>consumer. ok resp \<and> json_consumer resp = Some consumer \<longrightarrow>
                r = Inr consumer
                \<and> new_events w w' =
                    [KVGet CONSUMER_KV_KEY, Fetch consumer_request,
                     KVPut CONSUMER_KV_KEY (Some 86400)]
                \<and> GARMIN_KV w' =
                    (GARMIN_KV w)\<lparr>kv_oauth_consumer := Some (consumer, Some 86400)\<rparr>)))
     \<and> url consumer_request = js CONSUMER_URL"
  using assms
  by (auto simp: new_events_def getConsumer_def kv_get_consumer_def fetch_def kv_put_consumer_def
      consumer_request_def CONSUMER_TTL_def
      split: option.splits fetch_result.splits if_splits)

text \<open>
  C8.  Whenever \<open>refreshOAuth2Token\<close> returns a credential, the last thing it did was the
  write of the OAuth2 key, and the value stored under that key is the credential returned
  (in the model of one invocation running alone).
\<close>

theorem refresh_write_completes:
  assumes "refreshOAuth2Token oauth1 w = (Inr tok, w')"
  shows "kv_oauth2_token (GARMIN_KV w') = Some (tok, None)
         \<and> new_events w w' \<noteq> []
         \<and> last (new_events w w') = KVPut ''oauth2_token'' None"
  using assms
  by (auto simp: refreshOAuth2Token_def getConsumer_def buildOAuth1Header_def world_defs
      new_events_def Let_def
      split: prod.splits sum.splits option.splits fetch_result.splits if_splits)

text \<open>
  C10.  If the exchange endpoint answers with a status outside 200 to 299, then
  \<open>refreshOAuth2Token\<close> never returns a credential, leaves the stored OAuth2 credential
  unchanged, and, once the exchange request was sent, fails with the error that carries
  that status and the response body.  The example after it shows that the same failed call
  may have fetched and stored the consumer key pair.
\<close>

theorem refresh_rejected:
  assumes run: "refreshOAuth2Token oauth1 w = (r, w')"
    and endpoint: "\<And>n req. url req = js EXCHANGE_URL \<Longrightarrow> server w n req = Response resp"
    and rejected: "\<not> ok resp"
  shows "kv_oauth2_token (GARMIN_KV w') = kv_oauth2_token (GARMIN_KV w)
         \<and> ((\<exists>req\<in>set (fetches (new_events w w')). url req = js EXCHANGE_URL) \<longrightarrow>
              r = Inl (ExchangeFailed (status resp) (body_text resp)))
         \<and> (\<forall>tok. r \<noteq> Inr tok)"
  using run rejected url_consumer_request
  by (auto simp: refreshOAuth2Token_def getConsumer_def buildOAuth1Header_def world_defs
      new_events_def exchange_request_def endpoint Let_def
      split: prod.splits sum.splits option.splits fetch_result.splits if_splits)

lemma buildOAuth1Header_total:
  assumes "percentEncode (consumer_key consumer) \<noteq> None"
    and "percentEncode (consumer_secret consumer) \<noteq> None"
    and "percentEncode (oauth_token oauth1) \<noteq> None"
    and "percentEncode (oauth_token_secret oauth1) \<noteq> None"
  shows "\<exists>h. buildOAuth1Header consumer oauth1 w =
           (Some h, w\<lparr>clock_reads := clock_reads w + 1, entropy_reads := entropy_reads w + 1\<rparr>)"
  using signHeader_total [OF assms]
  by (auto simp: buildOAuth1Header_def Date_now_def getRandomValues_def)


lemma refresh_outcome:
  assumes gc: "getConsumer w = (Inr consumer, w1)"
    and enc: "percentEncode (consumer_key consumer) \<noteq> None"
      "percentEncode (consumer_secret consumer) \<noteq> None"
      "percentEncode (oauth_token oauth1) \<noteq> None"
      "percentEncode (oauth_token_secret oauth1) \<noteq> None"
    and endpoint: "\<And>n req. url req = js EXCHANGE_URL \<Longrightarrow> server w n req = answer"
  shows "\<exists>h. refreshOAuth2Token oauth1 w =
      (case answer of
         Rejected \<Rightarrow> (Inl NetworkError, after_exchange w1 h)
       | Response resp \<Rightarrow>
           if \<not> ok resp
           then (Inl (ExchangeFailed (status resp) (body_text resp)), after_exchange w1 h)
           else
             (case json_token resp of
                None \<Rightarrow> (Inl SyntaxError, after_exchange w1 h)
              | Some data \<Rightarrow>
                  (Inr (absolute_expiry (int (clock w1 (clock_reads w1 + 1) div 1000)) data),
                   kv_put_oauth2
                     (absolute_expiry (int (clock w1 (clock_reads w1 + 1) div 1000)) data) None
                     ((after_exchange w1 h)\<lparr>clock_reads := clock_reads w1 + 2\<rparr>))))"
proof -
  obtain h where h: "buildOAuth1Header consumer oauth1 w1 =
      (Some h, w1\<lparr>clock_reads := clock_reads w1 + 1, entropy_reads := entropy_reads w1 + 1\<rparr>)"
    using buildOAuth1Header_total [OF enc] by blast
  have srv: "server w1 = server w"
    using getConsumer_same [OF gc] by (simp add: same_oracles_def)
  show ?thesis
    by (rule exI [of _ h])
      (simp add: refreshOAuth2Token_def gc h fetch_def srv endpoint exchange_request_def
        Date_now_def after_exchange_def Let_def
        split: fetch_result.splits option.splits)
qed

lemma example_encodable:
  "percentEncode (consumer_key example_consumer) \<noteq> None"
  "percentEncode (consumer_secret example_consumer) \<noteq> None"
  "percentEncode (oauth_token example_oauth1) \<noteq> None"
  "percentEncode (oauth_token_secret example_oauth1) \<noteq> None"
  using percentEncode_ascii_total [of "js ''key''"] percentEncode_ascii_total [of "js ''secret''"]
    percentEncode_ascii_total [of "js ''token-1''"] percentEncode_ascii_total [of "js ''secret-1''"]
  by (auto simp: example_consumer_def example_oauth1_def ascii_js)

lemma urls_differ: "js CONSUMER_URL \<noteq> js EXCHANGE_URL"
  by (simp add: js_eq_iff CONSUMER_URL_def EXCHANGE_URL_def)

lemma example_endpoint:
  "url req = js EXCHANGE_URL \<Longrightarrow> server (example_world kv (example_server c e api)) n req = e"
  using urls_differ by (simp add: example_world_def example_server_def)

lemma example_getConsumer_cached:
  "getConsumer (example_world (example_kv o1 o2 (Some example_consumer)) srv) =
     (Inr example_consumer,
      (example_world (example_kv o1 o2 (Some example_consumer)) srv)\<lparr>trace := [KVGet CONSUMER_KV_KEY]\<rparr>)"
  by (simp add: getConsumer_def kv_get_consumer_def example_world_def example_kv_def)

lemma example_refresh:
  fixes o1 o2 c data api
  defines "W \<equiv> example_world (example_kv o1 o2 (Some example_consumer))
             (example_server c (Response (token_response data)) api)"
  shows "\<exists>h. refreshOAuth2Token example_oauth1 W =
        (Inr (absolute_expiry 1000 data),
         kv_put_oauth2 (absolute_expiry 1000 data) None
           ((after_exchange (W\<lparr>trace := [KVGet CONSUMER_KV_KEY]\<rparr>) h)\<lparr>clock_reads := 2\<rparr>))"
proof -
  have ep: "\<And>n req. url req = js EXCHANGE_URL \<Longrightarrow> server W n req = Response (token_response data)"
    unfolding W_def by (rule example_endpoint)
  have gc: "getConsumer W = (Inr example_consumer, W\<lparr>trace := [KVGet CONSUMER_KV_KEY]\<rparr>)"
    unfolding W_def by (rule example_getConsumer_cached)
  from refresh_outcome [OF gc example_encodable ep]
  show ?thesis
    by (simp add: token_response_def ok_def W_def example_world_def numeral_2_eq_2)
qed




lemma refresh_world_run:
  "\<exists>h. refreshOAuth2Token example_oauth1 (refresh_world stored (Response (token_response data)) api) =
        (Inr (absolute_expiry 1000 data),
         kv_put_oauth2 (absolute_expiry 1000 data) None
           ((after_exchange
               ((refresh_world stored (Response (token_response data)) api)
                  \<lparr>trace := [KVGet CONSUMER_KV_KEY]\<rparr>) h)\<lparr>clock_reads := 2\<rparr>))"
  unfolding refresh_world_def by (rule example_refresh)



lemma refresh_world_persisted:
  "fst (refreshOAuth2Token example_oauth1 (refresh_world stored (Response (token_response data)) api))
     = Inr (absolute_expiry 1000 data)"
  "kv_oauth2_token (GARMIN_KV (snd (refreshOAuth2Token example_oauth1
      (refresh_world stored (Response (token_response data)) api))))
     = Some (absolute_expiry 1000 data, None)"
  "written_keys (new_events (refresh_world stored (Response (token_response data)) api)
      (snd (refreshOAuth2Token example_oauth1
         (refresh_world stored (Response (token_response data)) api)))) = [''oauth2_token'']"
  using refresh_world_run [of stored data api]
  by (auto simp: kv_put_oauth2_def after_exchange_def new_events_def refresh_world_def
      example_world_def)




theorem refresh_write_completes_witness:
  "fst (refreshOAuth2Token example_oauth1
      (refresh_world None
         (Response (token_response (example_token ''A'' (Some 72000) None (Some 2592000) None))) []))
     = Inr (example_token ''A'' (Some 72000) (Some 73000) (Some 2592000) (Some 2593000))
   \<and> kv_oauth2_token (GARMIN_KV (snd (refreshOAuth2Token example_oauth1
      (refresh_world None
         (Response (token_response (example_token ''A'' (Some 72000) None (Some 2592000) None))) []))))
     = Some (example_token ''A'' (Some 72000) (Some 73000) (Some 2592000) (Some 2593000), None)
   \<and> last (new_events
        (refresh_world None
           (Response (token_response (example_token ''A'' (Some 72000) None (Some 2592000) None))) [])
        (snd (refreshOAuth2Token example_oauth1
          (refresh_world None
           (Response (token_response (example_token ''A'' (Some 72000) None (Some 2592000) None))) []))))
     = KVPut ''oauth2_token'' None"
proof -
  let ?d = "example_token ''A'' (Some 72000) None (Some 2592000) None"
  let ?W = "refresh_world None (Response (token_response ?d)) []"
  have tok: "absolute_expiry 1000 ?d
      = example_token ''A'' (Some 72000) (Some 73000) (Some 2592000) (Some 2593000)"
    by (simp add: example_token_def absolute_expiry_def)
  have run: "refreshOAuth2Token example_oauth1 ?W =
      (Inr (example_token ''A'' (Some 72000) (Some 73000) (Some 2592000) (Some 2593000)),
       snd (refreshOAuth2Token example_oauth1 ?W))"
    using refresh_world_persisted(1) [of None ?d "[]"] by (simp add: prod_eq_iff tok)
  have res: "fst (refreshOAuth2Token example_oauth1 ?W) =
      Inr (example_token ''A'' (Some 72000) (Some 73000) (Some 2592000) (Some 2593000))"
    using refresh_world_persisted(1) [of None ?d "[]"] by (simp add: tok)
  show ?thesis
    using refresh_write_completes [OF run] res by simp
qed

lemma cold_world_getConsumer:
  "getConsumer (cold_world (Response (consumer_response example_consumer)) e) =
     (Inr example_consumer,
      kv_put_consumer example_consumer (Some CONSUMER_TTL)
        ((cold_world (Response (consumer_response example_consumer)) e)
           \<lparr>trace := [KVGet CONSUMER_KV_KEY, Fetch consumer_request]\<rparr>))"
  by (simp add: getConsumer_def kv_get_consumer_def fetch_def cold_world_def example_world_def
      example_kv_def example_server_def consumer_request_def consumer_response_def ok_def)

lemma cold_world_endpoint:
  "url req = js EXCHANGE_URL \<Longrightarrow> server (cold_world c e) n req = e"
  unfolding cold_world_def by (rule example_endpoint)

lemma cold_world_rejected:
  "\<exists>h. refreshOAuth2Token example_oauth1
          (cold_world (Response (consumer_response example_consumer)) (Response (text_response 500 ''boom'')))
        = (Inl (ExchangeFailed 500 (js ''boom'')),
           after_exchange
             (kv_put_consumer example_consumer (Some CONSUMER_TTL)
               ((cold_world (Response (consumer_response example_consumer))
                   (Response (text_response 500 ''boom'')))
                  \<lparr>trace := [KVGet CONSUMER_KV_KEY, Fetch consumer_request]\<rparr>)) h)"
proof -
  have ep: "\<And>n req. url req = js EXCHANGE_URL \<Longrightarrow>
      server (cold_world (Response (consumer_response example_consumer))
                (Response (text_response 500 ''boom''))) n req = Response (text_response 500 ''boom'')"
    by (rule cold_world_endpoint)
  from refresh_outcome [OF cold_world_getConsumer example_encodable ep]
  show ?thesis by (simp add: text_response_def ok_def)
qed

theorem refresh_rejected_witness:
  "fst (refreshOAuth2Token example_oauth1
      (cold_world (Response (consumer_response example_consumer)) (Response (text_response 500 ''boom''))))
     = Inl (ExchangeFailed 500 (js ''boom''))
   \<and> kv_oauth2_token (GARMIN_KV (snd (refreshOAuth2Token example_oauth1
      (cold_world (Response (consumer_response example_consumer)) (Response (text_response 500 ''boom''))))))
     = None
   \<and> kv_oauth_consumer (GARMIN_KV
      (cold_world (Response (consumer_response example_consumer)) (Response (text_response 500 ''boom''))))
     = None
   \<and> kv_oauth_consumer (GARMIN_KV (snd (refreshOAuth2Token example_oauth1
      (cold_world (Response (consumer_response example_consumer)) (Response (text_response 500 ''boom''))))))
     = Some (example_consumer, Some 86400)"
proof -
  let ?W = "cold_world (Response (consumer_response example_consumer)) (Response (text_response 500 ''boom''))"
  obtain h where run: "refreshOAuth2Token example_oauth1 ?W
        = (Inl (ExchangeFailed 500 (js ''boom'')),
           after_exchange
             (kv_put_consumer example_consumer (Some CONSUMER_TTL)
               (?W\<lparr>trace := [KVGet CONSUMER_KV_KEY, Fetch consumer_request]\<rparr>)) h)"
    using cold_world_rejected by blast
  have sent: "\<exists>req\<in>set (fetches (new_events ?W (snd (refreshOAuth2Token example_oauth1 ?W)))).
      url req = js EXCHANGE_URL"
    by (simp add: run)
      (simp add: after_exchange_def kv_put_consumer_def new_events_def cold_world_def
        example_world_def exchange_request_def)
  have nok: "\<not> ok (text_response 500 ''boom'')" by (simp add: ok_def text_response_def)
  have kv0: "kv_oauth2_token (GARMIN_KV ?W) = None" "kv_oauth_consumer (GARMIN_KV ?W) = None"
    by (simp_all add: cold_world_def example_world_def example_kv_def)
  have kvc: "kv_oauth_consumer (GARMIN_KV (snd (refreshOAuth2Token example_oauth1 ?W)))
      = Some (example_consumer, Some 86400)"
    by (simp add: run after_exchange_def kv_put_consumer_def CONSUMER_TTL_def)
  have pair: "refreshOAuth2Token example_oauth1 ?W =
      (fst (refreshOAuth2Token example_oauth1 ?W), snd (refreshOAuth2Token example_oauth1 ?W))"
    by simp
  have ep: "\<And>n req. url req = js EXCHANGE_URL \<Longrightarrow> server ?W n req = Response (text_response 500 ''boom'')"
    by (rule cold_world_endpoint)
  show ?thesis
    using refresh_rejected [OF pair ep nok] sent kv0 kvc
    by (simp add: text_response_def)
qed

theorem getConsumer_policy_witness:
  "fst (getConsumer (refresh_world None Rejected [])) = Inr example_consumer
   \<and> new_events (refresh_world None Rejected []) (snd (getConsumer (refresh_world None Rejected [])))
       = [KVGet ''oauth_consumer'']
   \<and> fst (getConsumer (cold_world (Response (consumer_response example_consumer)) Rejected))
       = Inr example_consumer
   \<and> new_events (cold_world (Response (consumer_response example_consumer)) Rejected)
        (snd (getConsumer (cold_world (Response (consumer_response example_consumer)) Rejected)))
       = [KVGet ''oauth_consumer'', Fetch consumer_request, KVPut ''oauth_consumer'' (Some 86400)]
   \<and> kv_oauth_consumer (GARMIN_KV
        (snd (getConsumer (cold_world (Response (consumer_response example_consumer)) Rejected))))
       = Some (example_consumer, Some 86400)
   \<and> fst (getConsumer (cold_world (Response (text_response 503 ''down'')) Rejected))
       = Inl (ConsumerFetchFailed 503)
   \<and> new_events (cold_world (Response (text_response 503 ''down'')) Rejected)
        (snd (getConsumer (cold_world (Response (text_response 503 ''down'')) Rejected)))
       = [KVGet ''oauth_consumer'', Fetch consumer_request]
   \<and> GARMIN_KV (snd (getConsumer (cold_world (Response (text_response 503 ''down'')) Rejected)))
       = GARMIN_KV (cold_world (Response (text_response 503 ''down'')) Rejected)"
proof -
  let ?hit = "refresh_world None Rejected []"
  let ?miss = "cold_world (Response (consumer_response example_consumer)) Rejected"
  let ?down = "cold_world (Response (text_response 503 ''down'')) Rejected"
  have pair: "getConsumer w = (fst (getConsumer w), snd (getConsumer w))" for w by simp
  have hit: "kv_oauth_consumer (GARMIN_KV ?hit) = Some (example_consumer, Some 80000)"
    by (simp add: refresh_world_def example_world_def example_kv_def)
  have miss: "kv_oauth_consumer (GARMIN_KV ?miss) = None"
    "server ?miss (length (filter is_Fetch (trace ?miss))) consumer_request
       = Response (consumer_response example_consumer)"
    "ok (consumer_response example_consumer)"
    "json_consumer (consumer_response example_consumer) = Some example_consumer"
    by (simp_all add: cold_world_def example_world_def example_kv_def example_server_def
        consumer_request_def consumer_response_def ok_def)
  have down: "kv_oauth_consumer (GARMIN_KV ?down) = None"
    "server ?down (length (filter is_Fetch (trace ?down))) consumer_request
       = Response (text_response 503 ''down'')"
    "\<not> ok (text_response 503 ''down'')" "status (text_response 503 ''down'') = 503"
    by (simp_all add: cold_world_def example_world_def example_kv_def example_server_def
        consumer_request_def text_response_def ok_def)
  show ?thesis
    using getConsumer_policy [OF pair [of ?hit]] getConsumer_policy [OF pair [of ?miss]]
      getConsumer_policy [OF pair [of ?down]] hit miss down
    by (simp add: CONSUMER_KV_KEY_def)
qed

section \<open>The access token supplier\<close>


text \<open>
  C6.  With an empty in-process cache and no OAuth2 credential in the store (whether or
  not an OAuth1 credential is stored), \<open>getAccessToken\<close> fails with ``No OAuth2 token in
  KV'' (the specification's CredentialsMissing); all it did was one read of the OAuth2 key:
  it made no network call and wrote nothing.
\<close>

theorem getAccessToken_no_credentials:
  assumes "oauth2Cache c = None" and "kv_oauth2_token (GARMIN_KV w) = None"
  shows "fst (getAccessToken c w) = Inl NoOAuth2Token
         \<and> new_events w (snd (snd (getAccessToken c w))) = [KVGet ''oauth2_token'']
         \<and> fetches (new_events w (snd (snd (getAccessToken c w)))) = []
         \<and> GARMIN_KV (snd (snd (getAccessToken c w))) = GARMIN_KV w"
  using assms
  by (simp add: getAccessToken_def getAccessToken_from_KV_def kv_get_oauth2_def new_events_def)

theorem getAccessToken_no_credentials_witness:
  "fst (getAccessToken \<lparr>oauth2Cache = None\<rparr>
          (example_world (example_kv None None None) (example_server Rejected Rejected [])))
     = Inl NoOAuth2Token
   \<and> fetches (new_events
         (example_world (example_kv None None None) (example_server Rejected Rejected []))
         (snd (snd (getAccessToken \<lparr>oauth2Cache = None\<rparr>
            (example_world (example_kv None None None) (example_server Rejected Rejected []))))))
     = []"
  using getAccessToken_no_credentials [of "\<lparr>oauth2Cache = None\<rparr>"
      "example_world (example_kv None None None) (example_server Rejected Rejected [])"]
  by (simp add: example_world_def example_kv_def)






section \<open>The stored OAuth1 credential is never written\<close>

text \<open>
  C9.  No operation of the core writes the OAuth1 credential: after \<open>getConsumer\<close>,
  \<open>refreshOAuth2Token\<close>, \<open>getAccessToken\<close>, \<open>get\<close>, \<open>post\<close> or \<open>put\<close>, from any
  environment, the stored OAuth1 credential is what it was, and the only keys written are
  those of the OAuth2 credential and of the consumer key pair.
\<close>

theorem oauth1_never_written:
  "\<forall>w' \<in> {snd (getConsumer w), snd (refreshOAuth2Token oauth1 w), snd (snd (getAccessToken c w)),
           snd (snd (get path params c w)), snd (snd (post path payload c w)),
           snd (snd (put path payload c w))}.
     kv_oauth1_token (GARMIN_KV w') = kv_oauth1_token (GARMIN_KV w)
     \<and> set (written_keys (new_events w w')) \<subseteq> {''oauth2_token'', ''oauth_consumer''}"
proof -
  have "leaves_oauth1 w (snd (getConsumer w))"
    by (rule getConsumer_leaves [of w "fst (getConsumer w)"]) simp
  moreover have "leaves_oauth1 w (snd (refreshOAuth2Token oauth1 w))"
    by (rule refreshOAuth2Token_leaves [of oauth1 w "fst (refreshOAuth2Token oauth1 w)"]) simp
  moreover have "leaves_oauth1 w (snd (snd (getAccessToken c w)))"
    by (rule getAccessToken_leaves [of c w "fst (getAccessToken c w)" "fst (snd (getAccessToken c w))"])
      simp
  moreover have "leaves_oauth1 w (snd (snd (get path params c w)))"
    by (rule get_leaves [of path params c w "fst (get path params c w)"
          "fst (snd (get path params c w))"]) simp
  moreover have "leaves_oauth1 w (snd (snd (send_body m path payload c w)))" for m
    by (rule send_body_leaves [of m path payload c w "fst (send_body m path payload c w)"
          "fst (snd (send_body m path payload c w))"]) simp
  ultimately show ?thesis
    by (simp add: leaves_oauth1_def post_def put_def CONSUMER_KV_KEY_def)
qed

lemma cold_world_refreshed:
  "\<exists>h w'. refreshOAuth2Token example_oauth1
          (cold_world (Response (consumer_response example_consumer)) (Response (token_response data)))
        = (Inr (absolute_expiry 1000 data), w')
      \<and> kv_oauth1_token (GARMIN_KV w') = Some (example_oauth1, None)
      \<and> trace w' = [KVGet CONSUMER_KV_KEY, Fetch consumer_request,
                     KVPut CONSUMER_KV_KEY (Some CONSUMER_TTL), Fetch (exchange_request h),
                     KVPut ''oauth2_token'' None]"
proof -
  have ep: "\<And>n req. url req = js EXCHANGE_URL \<Longrightarrow>
      server (cold_world (Response (consumer_response example_consumer))
                (Response (token_response data))) n req = Response (token_response data)"
    by (rule cold_world_endpoint)
  from refresh_outcome [OF cold_world_getConsumer example_encodable ep]
  show ?thesis
    by (auto simp: token_response_def ok_def after_exchange_def kv_put_oauth2_def
        kv_put_consumer_def cold_world_def example_world_def example_kv_def)
qed

theorem oauth1_never_written_witness:
  "kv_oauth1_token (GARMIN_KV (snd (refreshOAuth2Token example_oauth1
      (cold_world (Response (consumer_response example_consumer))
         (Response (token_response (example_token ''A'' (Some 72000) None (Some 2592000) None)))))))
     = Some (example_oauth1, None)
   \<and> written_keys (new_events
      (cold_world (Response (consumer_response example_consumer))
         (Response (token_response (example_token ''A'' (Some 72000) None (Some 2592000) None))))
      (snd (refreshOAuth2Token example_oauth1
      (cold_world (Response (consumer_response example_consumer))
         (Response (token_response (example_token ''A'' (Some 72000) None (Some 2592000) None)))))))
     = [''oauth_consumer'', ''oauth2_token'']"
proof -
  let ?W = "cold_world (Response (consumer_response example_consumer))
         (Response (token_response (example_token ''A'' (Some 72000) None (Some 2592000) None)))"
  obtain h w' where run: "refreshOAuth2Token example_oauth1 ?W
        = (Inr (absolute_expiry 1000 (example_token ''A'' (Some 72000) None (Some 2592000) None)), w')"
    and tr: "trace w' = [KVGet CONSUMER_KV_KEY, Fetch consumer_request,
                     KVPut CONSUMER_KV_KEY (Some CONSUMER_TTL), Fetch (exchange_request h),
                     KVPut ''oauth2_token'' None]"
    using cold_world_refreshed by blast
  have ev: "written_keys (new_events ?W (snd (refreshOAuth2Token example_oauth1 ?W)))
      = [''oauth_consumer'', ''oauth2_token'']"
  proof -
    have "trace ?W = []" by (simp add: cold_world_def example_world_def)
    then show ?thesis by (simp add: run tr new_events_def CONSUMER_KV_KEY_def)
  qed
  have o1: "kv_oauth1_token (GARMIN_KV ?W) = Some (example_oauth1, None)"
    by (simp add: cold_world_def example_world_def example_kv_def)
  show ?thesis
    using oauth1_never_written [of ?W example_oauth1 "\<lparr>oauth2Cache = None\<rparr>" "[]" None "[]"] ev o1
    by simp
qed


section \<open>The request executor\<close>

lemma get_retried_once:
  assumes "getAccessToken c w = (Inr token, c1, w1)"
    and "fetch (get_request path params token) w1 = (Response resp, w2)"
    and "status resp = 401 \<or> status resp = 403"
    and "getAccessToken (c1\<lparr>oauth2Cache := None\<rparr>) w2 = (Inr freshToken, c3, w3)"
    and "fetch (get_request path params freshToken) w3 = (Response retry, w4)"
    and "\<not> ok retry"
  shows "get path params c w = (Inl (GarminApiError (status retry) (body_text retry)), c3, w4)"
  using assms by (auto simp: get_def)

lemma get_retry_succeeds:
  assumes "getAccessToken c w = (Inr token, c1, w1)"
    and "fetch (get_request path params token) w1 = (Response resp, w2)"
    and "status resp = 401 \<or> status resp = 403"
    and "getAccessToken (c1\<lparr>oauth2Cache := None\<rparr>) w2 = (Inr freshToken, c3, w3)"
    and "fetch (get_request path params freshToken) w3 = (Response retry, w4)"
    and "ok retry" and "status retry \<noteq> 204" and "json_value retry = Some v"
  shows "get path params c w = (Inr (Some v), c3, w4)"
  using assms by (auto simp: get_def resp_json_def)

lemma send_body_not_retried:
  assumes "getAccessToken c w = (Inr token, c1, w1)"
    and "fetch (body_request m path payload token) w1 = (Response resp, w2)"
    and "status resp = 401 \<or> status resp = 403"
  shows "send_body m path payload c w
           = (Inl (GarminApiError (status resp) (body_text resp)), c1, w2)"
  using assms by (auto simp: send_body_def ok_def)

lemma js_append: "js a @ js b = js (a @ b)"
  by (simp add: js_def)

lemma example_api:
  "url req = js GARMIN_BASE @ js ''/upload'' \<Longrightarrow> n < length api \<Longrightarrow>
   server (refresh_world stored e api) n req = api ! n"
  by (simp add: refresh_world_def example_world_def example_server_def js_append js_eq_iff
      GARMIN_BASE_def CONSUMER_URL_def EXCHANGE_URL_def)

lemma example_getAccessToken_fresh:
  assumes "kv_oauth2_token (GARMIN_KV w) = Some (stored, ttl)" and "expires_at stored = Some 4600"
    and "oauth2Cache c = None" and "clock w = (\<lambda>n. 1000999)"
  shows "getAccessToken c w =
     (Inr (access_token stored), c\<lparr>oauth2Cache := Some stored\<rparr>,
      w\<lparr>clock_reads := clock_reads w + 1, trace := trace w @ [KVGet ''oauth2_token'']\<rparr>)"
  using assms
  by (simp add: getAccessToken_def getAccessToken_from_KV_def kv_get_oauth2_def Date_now_def)

text \<open>
  C1.  The retry on 401 or 403 exists in \<open>get\<close> only.  In the example the store holds a
  valid token and the data API answers 401 and then 200: \<open>post\<close> and \<open>put\<close> fail at once
  with the 401 and its body, after one request, and the in-process cache still holds the
  token; \<open>get\<close>, on the same answers, clears the cache, asks for a token again and returns
  the result of its second request.
\<close>

theorem post_unauthorized_not_retried:
  "fst (post (js ''/upload'') (js ''{}'') \<lparr>oauth2Cache = None\<rparr>
      (refresh_world (Some (example_token ''old'' (Some 72000) (Some 4600) (Some 2592000) (Some 2592999)))
         Rejected [Response (text_response 401 ''expired''), Response (data_response ''[]'')]))
     = Inl (GarminApiError 401 (js ''expired''))
   \<and> length (fetches (new_events
      (refresh_world (Some (example_token ''old'' (Some 72000) (Some 4600) (Some 2592000) (Some 2592999)))
         Rejected [Response (text_response 401 ''expired''), Response (data_response ''[]'')])
      (snd (snd (post (js ''/upload'') (js ''{}'') \<lparr>oauth2Cache = None\<rparr>
      (refresh_world (Some (example_token ''old'' (Some 72000) (Some 4600) (Some 2592000) (Some 2592999)))
         Rejected [Response (text_response 401 ''expired''), Response (data_response ''[]'')])))))) = 1
   \<and> oauth2Cache (fst (snd (post (js ''/upload'') (js ''{}'') \<lparr>oauth2Cache = None\<rparr>
      (refresh_world (Some (example_token ''old'' (Some 72000) (Some 4600) (Some 2592000) (Some 2592999)))
         Rejected [Response (text_response 401 ''expired''), Response (data_response ''[]'')]))))
     = Some (example_token ''old'' (Some 72000) (Some 4600) (Some 2592000) (Some 2592999))
   \<and> fst (put (js ''/upload'') (js ''{}'') \<lparr>oauth2Cache = None\<rparr>
      (refresh_world (Some (example_token ''old'' (Some 72000) (Some 4600) (Some 2592000) (Some 2592999)))
         Rejected [Response (text_response 401 ''expired''), Response (data_response ''[]'')]))
     = Inl (GarminApiError 401 (js ''expired''))
   \<and> fst (get (js ''/upload'') None \<lparr>oauth2Cache = None\<rparr>
      (refresh_world (Some (example_token ''old'' (Some 72000) (Some 4600) (Some 2592000) (Some 2592999)))
         Rejected [Response (text_response 401 ''expired''), Response (data_response ''[]'')]))
     = Inr (Some (js ''[]''))
   \<and> length (fetches (new_events
      (refresh_world (Some (example_token ''old'' (Some 72000) (Some 4600) (Some 2592000) (Some 2592999)))
         Rejected [Response (text_response 401 ''expired''), Response (data_response ''[]'')])
      (snd (snd (get (js ''/upload'') None \<lparr>oauth2Cache = None\<rparr>
      (refresh_world (Some (example_token ''old'' (Some 72000) (Some 4600) (Some 2592000) (Some 2592999)))
         Rejected [Response (text_response 401 ''expired''), Response (data_response ''[]'')])))))) = 2"
proof -
  let ?tok = "example_token ''old'' (Some 72000) (Some 4600) (Some 2592000) (Some 2592999)"
  let ?api = "[Response (text_response 401 ''expired''), Response (data_response ''[]'')]"
  let ?W = "refresh_world (Some ?tok) Rejected ?api"
  let ?c = "\<lparr>oauth2Cache = None\<rparr>"
  let ?w1 = "?W\<lparr>clock_reads := clock_reads ?W + 1, trace := trace ?W @ [KVGet ''oauth2_token'']\<rparr>"
  let ?c1 = "?c\<lparr>oauth2Cache := Some ?tok\<rparr>"
  have W: "kv_oauth2_token (GARMIN_KV ?W) = Some (?tok, None)" "clock ?W = (\<lambda>n. 1000999)"
    "trace ?W = []"
    by (simp_all add: refresh_world_def example_world_def example_kv_def)
  have tok: "expires_at ?tok = Some 4600" "access_token ?tok = js ''old''"
    by (simp_all add: example_token_def)
  have tk1: "getAccessToken ?c ?W = (Inr (js ''old''), ?c1, ?w1)"
    using example_getAccessToken_fresh [OF W(1) tok(1) _ W(2), of ?c] by (simp add: tok)
  have srv: "server ?W 0 req = Response (text_response 401 ''expired'')"
    "server ?W (Suc 0) req = Response (data_response ''[]'')"
    if "url req = js GARMIN_BASE @ js ''/upload''" for req
    using example_api [of req 0 ?api "Some ?tok" Rejected]
      example_api [of req "Suc 0" ?api "Some ?tok" Rejected] that by simp_all
  have f1: "fetch (body_request m (js ''/upload'') (js ''{}'') (js ''old'')) ?w1 =
      (Response (text_response 401 ''expired''),
       ?w1\<lparr>trace := trace ?w1 @ [Fetch (body_request m (js ''/upload'') (js ''{}'') (js ''old''))]\<rparr>)"
    for m
    by (simp add: fetch_def W srv body_request_def)
  have st: "status (text_response 401 ''expired'') = 401"
    "body_text (text_response 401 ''expired'') = js ''expired''"
    by (simp_all add: text_response_def)
  have sb: "send_body m (js ''/upload'') (js ''{}'') ?c ?W =
      (Inl (GarminApiError 401 (js ''expired'')), ?c1,
       ?w1\<lparr>trace := trace ?w1 @ [Fetch (body_request m (js ''/upload'') (js ''{}'') (js ''old''))]\<rparr>)"
    for m
    using send_body_not_retried [OF tk1 f1 [of m]] by (simp add: st)
  have g1: "fetch (get_request (js ''/upload'') None (js ''old'')) ?w1 =
      (Response (text_response 401 ''expired''),
       ?w1\<lparr>trace := trace ?w1 @ [Fetch (get_request (js ''/upload'') None (js ''old''))]\<rparr>)"
    by (simp add: fetch_def W srv get_request_def)
  let ?w2 = "?w1\<lparr>trace := trace ?w1 @ [Fetch (get_request (js ''/upload'') None (js ''old''))]\<rparr>"
  let ?w3 = "?w2\<lparr>clock_reads := clock_reads ?w2 + 1, trace := trace ?w2 @ [KVGet ''oauth2_token'']\<rparr>"
  have tk2: "getAccessToken (?c1\<lparr>oauth2Cache := None\<rparr>) ?w2 = (Inr (js ''old''), ?c1, ?w3)"
    using example_getAccessToken_fresh [of ?w2 ?tok None "?c1\<lparr>oauth2Cache := None\<rparr>"]
    by (simp add: W tok)
  have g2: "fetch (get_request (js ''/upload'') None (js ''old'')) ?w3 =
      (Response (data_response ''[]''),
       ?w3\<lparr>trace := trace ?w3 @ [Fetch (get_request (js ''/upload'') None (js ''old''))]\<rparr>)"
    by (simp add: fetch_def W srv get_request_def)
  have gt: "get (js ''/upload'') None ?c ?W =
      (Inr (Some (js ''[]'')), ?c1,
       ?w3\<lparr>trace := trace ?w3 @ [Fetch (get_request (js ''/upload'') None (js ''old''))]\<rparr>)"
  proof -
    have d: "ok (data_response ''[]'')" "status (data_response ''[]'') \<noteq> 204"
      "json_value (data_response ''[]'') = Some (js ''[]'')"
      by (simp_all add: data_response_def ok_def)
    have u: "status (text_response 401 ''expired'') = 401 \<or> status (text_response 401 ''expired'') = 403"
      by (simp add: st)
    show ?thesis
      by (rule get_retry_succeeds [OF tk1 g1 u tk2 g2 d])
  qed
  show ?thesis
    by (simp add: post_def put_def sb gt new_events_def W)
qed

end
